theory Spec2Isabelle
  imports Complex_Main "HOL-Library.Multiset"
begin

section \<open>JavaScript values\<close>

text \<open>
  A JavaScript number is modelled as an exact rational, or one of the three special
  values. Rounding to binary64 and the sign of zero are not modelled: the metric values
  of the application are counts read from CSV text.
\<close>

datatype jsnum = Fin rat | PInf | NInf | NaN

fun js_neg :: "jsnum \<Rightarrow> jsnum" where
  "js_neg (Fin a) = Fin (- a)"
| "js_neg PInf = NInf"
| "js_neg NInf = PInf"
| "js_neg NaN = NaN"

fun js_add :: "jsnum \<Rightarrow> jsnum \<Rightarrow> jsnum" where
  "js_add NaN b = NaN"
| "js_add (Fin a) (Fin b) = Fin (a + b)"
| "js_add (Fin a) b = b"
| "js_add PInf b = (if b = NInf \<or> b = NaN then NaN else PInf)"
| "js_add NInf b = (if b = PInf \<or> b = NaN then NaN else NInf)"

definition js_sub :: "jsnum \<Rightarrow> jsnum \<Rightarrow> jsnum" where
  "js_sub a b = js_add a (js_neg b)"

fun js_sgn :: "jsnum \<Rightarrow> int" where
  "js_sgn (Fin a) = (if a < 0 then - 1 else if a = 0 then 0 else 1)"
| "js_sgn PInf = 1"
| "js_sgn NInf = - 1"
| "js_sgn NaN = 0"

fun js_mul :: "jsnum \<Rightarrow> jsnum \<Rightarrow> jsnum" where
  "js_mul NaN b = NaN"
| "js_mul a NaN = NaN"
| "js_mul (Fin a) (Fin b) = Fin (a * b)"
| "js_mul a b =
     (if js_sgn a * js_sgn b = 0 then NaN
      else if 0 < js_sgn a * js_sgn b then PInf else NInf)"

text \<open>Division: a zero divisor counts as \<open>+0\<close>.\<close>

fun js_div :: "jsnum \<Rightarrow> jsnum \<Rightarrow> jsnum" where
  "js_div NaN b = NaN"
| "js_div a NaN = NaN"
| "js_div (Fin a) (Fin b) =
     (if b \<noteq> 0 then Fin (a / b)
      else if a = 0 then NaN else if 0 < a then PInf else NInf)"
| "js_div (Fin a) b = Fin 0"
| "js_div a (Fin b) =
     (if (0 < js_sgn a) = (0 \<le> b) then PInf else NInf)"
| "js_div a b = NaN"

fun js_lt :: "jsnum \<Rightarrow> jsnum \<Rightarrow> bool" where
  "js_lt NaN b = False"
| "js_lt a NaN = False"
| "js_lt (Fin a) (Fin b) = (a < b)"
| "js_lt a NInf = False"
| "js_lt PInf b = False"
| "js_lt a b = True"

definition js_gt :: "jsnum \<Rightarrow> jsnum \<Rightarrow> bool" where
  "js_gt a b = js_lt b a"

definition js_ge :: "jsnum \<Rightarrow> jsnum \<Rightarrow> bool" where
  "js_ge a b = (a \<noteq> NaN \<and> b \<noteq> NaN \<and> \<not> js_lt a b)"

definition isNaN :: "jsnum \<Rightarrow> bool" where
  "isNaN a = (a = NaN)"

text \<open>\<open>Math.round\<close> rounds half towards plus infinity.\<close>

fun Math_round :: "jsnum \<Rightarrow> jsnum" where
  "Math_round (Fin x) = Fin (of_int \<lfloor>x + 1 / 2\<rfloor>)"
| "Math_round a = a"

definition js_min :: "jsnum \<Rightarrow> jsnum \<Rightarrow> jsnum" where
  "js_min a b = (if a = NaN \<or> b = NaN then NaN else if js_lt b a then b else a)"

definition js_max :: "jsnum \<Rightarrow> jsnum \<Rightarrow> jsnum" where
  "js_max a b = (if a = NaN \<or> b = NaN then NaN else if js_lt a b then b else a)"

text \<open>\<open>Math.min(...values)\<close> and \<open>Math.max(...values)\<close>; on no argument they are
  \<open>Infinity\<close> and \<open>-Infinity\<close>.\<close>

definition Math_min :: "jsnum list \<Rightarrow> jsnum" where
  "Math_min vs = foldl js_min PInf vs"

definition Math_max :: "jsnum list \<Rightarrow> jsnum" where
  "Math_max vs = foldl js_max NInf vs"

text \<open>\<open>values.reduce((sum, val) => sum + val, 0)\<close>\<close>

definition reduce_sum :: "jsnum list \<Rightarrow> jsnum" where
  "reduce_sum vs = foldl js_add (Fin 0) vs"

text \<open>
  What a cell of a parsed CSV row holds: Papa Parse runs with \<open>dynamicTyping: false\<close>,
  so a cell is a string; a key the row does not have reads as \<open>undefined\<close>.
  A row is the property lookup of its object.
\<close>

datatype jsval = Undefined | Null | Str string

type_synonym csvrow = "string \<Rightarrow> jsval"

fun truthy :: "jsval \<Rightarrow> bool" where
  "truthy (Str s) = (s \<noteq> [])"
| "truthy v = False"

definition js_or :: "jsval \<Rightarrow> jsval \<Rightarrow> jsval" where
  "js_or a b = (if truthy a then a else b)"

definition is_ws :: "char \<Rightarrow> bool" where
  "is_ws c = (c = CHR '' '' \<or> c = CHR 0x09 \<or> c = CHR 0x0A \<or> c = CHR 0x0B
              \<or> c = CHR 0x0C \<or> c = CHR 0x0D)"

definition trim :: "string \<Rightarrow> string" where
  "trim s = rev (dropWhile is_ws (rev (dropWhile is_ws s)))"

definition is_digit :: "char \<Rightarrow> bool" where
  "is_digit c = (48 \<le> (of_char c :: nat) \<and> (of_char c :: nat) \<le> 57)"

definition digits_val :: "string \<Rightarrow> nat" where
  "digits_val ds = foldl (\<lambda>a c. 10 * a + ((of_char c :: nat) - 48)) 0 ds"

fun parse_sign :: "string \<Rightarrow> bool \<times> string" where
  "parse_sign [] = (False, [])"
| "parse_sign (c # r) =
     (if c = CHR ''-'' then (True, r) else if c = CHR ''+'' then (False, r)
      else (False, c # r))"

text \<open>The exponent part \<open>[eE][+-]?digits\<close>; anything else leaves the exponent at 0.\<close>

fun parse_exponent :: "string \<Rightarrow> int" where
  "parse_exponent [] = 0"
| "parse_exponent (c # r) =
     (if c = CHR ''e'' \<or> c = CHR ''E'' then
        (let ds = takeWhile is_digit (snd (parse_sign r)) in
         if ds = [] then 0
         else if fst (parse_sign r) then - int (digits_val ds) else int (digits_val ds))
      else 0)"

definition pow10 :: "int \<Rightarrow> rat" where
  "pow10 e = (if 0 \<le> e then 10 ^ nat e else 1 / 10 ^ nat (- e))"

text \<open>
  \<open>parseFloat\<close>: skip leading white space, then read the longest prefix that is a
  decimal literal (sign, \<open>Infinity\<close>, or digits with an optional fraction and exponent);
  \<open>NaN\<close> when there is none.
\<close>

definition parseFloat :: "string \<Rightarrow> jsnum" where
  "parseFloat s =
     (let neg = fst (parse_sign (dropWhile is_ws s));
          u = snd (parse_sign (dropWhile is_ws s))
      in if take 8 u = ''Infinity'' then (if neg then NInf else PInf)
         else
           (let ip = takeWhile is_digit u;
                r1 = dropWhile is_digit u;
                has_dot = (r1 \<noteq> [] \<and> hd r1 = CHR ''.'');
                fp = (if has_dot then takeWhile is_digit (tl r1) else []);
                r2 = (if has_dot then dropWhile is_digit (tl r1) else r1)
            in if ip = [] \<and> fp = [] then NaN
               else
                 (let v = (of_nat (digits_val ip)
                            + of_nat (digits_val fp) / 10 ^ length fp)
                          * pow10 (parse_exponent r2)
                  in Fin (if neg then - v else v))))"

text \<open>\<open>String(value).replace(/,/g, '')\<close> on a string.\<close>

definition remove_commas :: "string \<Rightarrow> string" where
  "remove_commas s = filter (\<lambda>c. c \<noteq> CHR '','') s"

section \<open>Errors\<close>

text \<open>Every \<open>throw new Error(...)\<close> of the source is one constructor; \<open>TypeError\<close> is the
  engine's error on reading a property of \<open>undefined\<close>.\<close>

datatype error =
    AccountRequiresUsernameAndId
  | CsvRowMissingRequiredField
  | InvalidYearOrMonth
  | MonthlyDataWrongAccount
  | MissingArgument string
  | CriticalNonSummable string
  | UnknownOperation string
  | MarketShareNonSummable string
  | NotSummableOverMonths string
  | ComparePeriodsArguments
  | InvalidPeriod int int
  | TypeError

section \<open>Time series models\<close>

record InstagramAccount =
  username :: string
  accountId :: string
  displayName :: string

definition InstagramAccount_new :: "jsval \<Rightarrow> jsval \<Rightarrow> jsval \<Rightarrow> error + InstagramAccount" where
  "InstagramAccount_new u i d =
     (case (u, i) of
        (Str us, Str ids) \<Rightarrow>
          if us = [] \<or> ids = [] then Inl AccountRequiresUsernameAndId
          else Inr \<lparr>username = trim us, accountId = trim ids,
                    displayName = (case d of Str ds \<Rightarrow> if ds = [] then trim us else trim ds
                                    | _ \<Rightarrow> trim us)\<rparr>
      | _ \<Rightarrow> Inl AccountRequiresUsernameAndId)"

definition InstagramAccount_fromCSVRow :: "csvrow \<Rightarrow> error + InstagramAccount" where
  "InstagramAccount_fromCSVRow csvRow =
     (if \<not> truthy (csvRow ''Account'') \<or> \<not> truthy (csvRow ''IG ID'')
      then Inl CsvRowMissingRequiredField
      else InstagramAccount_new (csvRow ''Account'') (csvRow ''IG ID'')
             (js_or (csvRow ''Account Name'') (csvRow ''Account'')))"

definition getKey :: "InstagramAccount \<Rightarrow> string" where
  "getKey a = ''account_'' @ accountId a"

record metrics =
  reach :: jsnum
  followers :: jsnum
  views :: jsnum

record period =
  year :: int
  month :: int

record MonthlyAccountData = period +
  account :: InstagramAccount
  metrics :: metrics

definition parseNumeric :: "jsval \<Rightarrow> jsnum" where
  "parseNumeric v =
     (case v of
        Undefined \<Rightarrow> Fin 0
      | Null \<Rightarrow> Fin 0
      | Str s \<Rightarrow>
          if s = [] then Fin 0
          else (let parsed = parseFloat (remove_commas s)
                in if isNaN parsed then Fin 0 else parsed))"

definition validateMetrics :: "csvrow \<Rightarrow> metrics" where
  "validateMetrics rawMetrics =
     \<lparr>reach = parseNumeric (js_or (rawMetrics ''reach'') (rawMetrics ''Reach'')),
      followers = parseNumeric (js_or (rawMetrics ''followers'') (rawMetrics ''Followers'')),
      views = parseNumeric (js_or (rawMetrics ''views'') (rawMetrics ''Views''))\<rparr>"

definition MonthlyAccountData_new ::
  "InstagramAccount \<Rightarrow> int \<Rightarrow> int \<Rightarrow> csvrow \<Rightarrow> error + MonthlyAccountData" where
  "MonthlyAccountData_new a y m raw =
     (if y = 0 \<or> m = 0 \<or> m < 1 \<or> m > 12 then Inl InvalidYearOrMonth
      else Inr \<lparr>year = y, month = m, account = a, metrics = validateMetrics raw\<rparr>)"

definition MonthlyAccountData_fromCSVRow ::
  "csvrow \<Rightarrow> int \<Rightarrow> int \<Rightarrow> error + MonthlyAccountData" where
  "MonthlyAccountData_fromCSVRow csvRow y m =
     (case InstagramAccount_fromCSVRow csvRow of
        Inl e \<Rightarrow> Inl e
      | Inr a \<Rightarrow> MonthlyAccountData_new a y m csvRow)"

definition getPeriod :: "MonthlyAccountData \<Rightarrow> period" where
  "getPeriod d = \<lparr>year = year d, month = month d\<rparr>"

text \<open>\<open>data.metrics[metric]\<close>: \<open>None\<close> is \<open>undefined\<close>, for a name that is no metric key.\<close>

definition metric_get :: "metrics \<Rightarrow> string \<Rightarrow> jsnum option" where
  "metric_get ms k =
     (if k = ''reach'' then Some (reach ms)
      else if k = ''followers'' then Some (followers ms)
      else if k = ''views'' then Some (views ms)
      else None)"

text \<open>
  A JavaScript \<open>Map\<close> keeps its entries in insertion order; \<open>set\<close> on a key that is
  present replaces the value in place. The entries are an association list;
  \<open>get\<close> is \<open>map_of\<close>, \<open>size\<close> is \<open>length\<close>. The period key \<open>`${year}_${month}`\<close> is
  modelled as the pair of its two integers, which it determines.
\<close>

fun map_set :: "'k \<Rightarrow> 'v \<Rightarrow> ('k \<times> 'v) list \<Rightarrow> ('k \<times> 'v) list" where
  "map_set k v [] = [(k, v)]"
| "map_set k v (e # es) = (if fst e = k then (k, v) # es else e # map_set k v es)"

text \<open>
  \<open>Array.prototype.sort\<close> is stable; it is modelled as a stable insertion sort, where
  \<open>gt a b\<close> says that the comparator returns a positive number on \<open>(a, b)\<close>.
\<close>

fun insort_by :: "('a \<Rightarrow> 'a \<Rightarrow> bool) \<Rightarrow> 'a \<Rightarrow> 'a list \<Rightarrow> 'a list" where
  "insort_by gt x [] = [x]"
| "insort_by gt x (y # ys) = (if gt x y then y # insort_by gt x ys else x # y # ys)"

definition sort_by :: "('a \<Rightarrow> 'a \<Rightarrow> bool) \<Rightarrow> 'a list \<Rightarrow> 'a list" where
  "sort_by gt xs = foldr (insort_by gt) xs []"

text \<open>The comparator \<open>a.year !== b.year ? a.year - b.year : a.month - b.month\<close>.\<close>

definition period_cmp :: "'a period_scheme \<Rightarrow> 'b period_scheme \<Rightarrow> int" where
  "period_cmp a b = (if year a \<noteq> year b then year a - year b else month a - month b)"

record AccountTimeseries =
  ts_account :: InstagramAccount
  monthlyData :: "((int \<times> int) \<times> MonthlyAccountData) list"

definition AccountTimeseries_new :: "InstagramAccount \<Rightarrow> AccountTimeseries" where
  "AccountTimeseries_new a = \<lparr>ts_account = a, monthlyData = []\<rparr>"

definition AccountTimeseries_addMonthlyData ::
  "AccountTimeseries \<Rightarrow> MonthlyAccountData \<Rightarrow> error + AccountTimeseries" where
  "AccountTimeseries_addMonthlyData ts d =
     (if accountId (account d) \<noteq> accountId (ts_account ts) then Inl MonthlyDataWrongAccount
      else Inr (ts\<lparr>monthlyData := map_set (year d, month d) d (monthlyData ts)\<rparr>))"

definition getMonthlyData :: "AccountTimeseries \<Rightarrow> int \<Rightarrow> int \<Rightarrow> MonthlyAccountData option" where
  "getMonthlyData ts y m = map_of (monthlyData ts) (y, m)"

definition getAllMonthlyData :: "AccountTimeseries \<Rightarrow> MonthlyAccountData list" where
  "getAllMonthlyData ts = sort_by (\<lambda>a b. 0 < period_cmp a b) (map snd (monthlyData ts))"

definition getMonthCount :: "AccountTimeseries \<Rightarrow> nat" where
  "getMonthCount ts = length (monthlyData ts)"

record TimeseriesDataset =
  accountTimeseries :: "(string \<times> AccountTimeseries) list"

definition TimeseriesDataset_new :: TimeseriesDataset where
  "TimeseriesDataset_new = \<lparr>accountTimeseries = []\<rparr>"

text \<open>
  \<open>TimeseriesDataset.addMonthlyData\<close>: create the series on first sight of the account
  key, then add the record to the series stored under that key.
\<close>

definition TimeseriesDataset_addMonthlyData ::
  "TimeseriesDataset \<Rightarrow> MonthlyAccountData \<Rightarrow> error + TimeseriesDataset" where
  "TimeseriesDataset_addMonthlyData ds d =
     (let accountKey = getKey (account d);
          m1 = (if map_of (accountTimeseries ds) accountKey = None
                then map_set accountKey (AccountTimeseries_new (account d)) (accountTimeseries ds)
                else accountTimeseries ds)
      in case map_of m1 accountKey of
           None \<Rightarrow> Inl TypeError
         | Some ts \<Rightarrow>
             (case AccountTimeseries_addMonthlyData ts d of
                Inl e \<Rightarrow> Inl e
              | Inr ts' \<Rightarrow> Inr (ds\<lparr>accountTimeseries := map_set accountKey ts' m1\<rparr>)))"

definition getAccountTimeseries :: "TimeseriesDataset \<Rightarrow> string \<Rightarrow> AccountTimeseries option" where
  "getAccountTimeseries ds aid = map_of (accountTimeseries ds) (''account_'' @ aid)"

text \<open>
  \<open>getDataForPeriod\<close> sorts by \<open>a.account.username.localeCompare(b.account.username)\<close>;
  the collation of the host locale is the parameter \<open>lc\<close>.
\<close>

definition getDataForPeriod ::
  "(string \<Rightarrow> string \<Rightarrow> int) \<Rightarrow> TimeseriesDataset \<Rightarrow> int \<Rightarrow> int \<Rightarrow> MonthlyAccountData list" where
  "getDataForPeriod lc ds y m =
     sort_by (\<lambda>a b. 0 < lc (username (account a)) (username (account b)))
       (List.map_filter (\<lambda>ts. getMonthlyData ts y m) (map snd (accountTimeseries ds)))"

text \<open>\<open>getStats().totalDataPoints\<close>: the number of records of the dataset.\<close>

definition totalDataPoints :: "TimeseriesDataset \<Rightarrow> nat" where
  "totalDataPoints ds = foldl (\<lambda>s ts. s + getMonthCount ts) 0 (map snd (accountTimeseries ds))"

section \<open>Reach calculator\<close>

definition NON_SUMMABLE_METRICS :: "string list" where
  "NON_SUMMABLE_METRICS = [''reach'']"

definition SUMMABLE_METRICS :: "string list" where
  "SUMMABLE_METRICS = [''followers'', ''views'']"

definition isMetricSummable :: "string \<Rightarrow> bool" where
  "isMetricSummable metric = (metric \<in> set SUMMABLE_METRICS)"

text \<open>\<open>validateMetricOperation\<close> throws or returns nothing; its \<open>console.warn\<close> on an
  average of a summable metric has no effect on any result.\<close>

definition validateMetricOperation :: "string \<Rightarrow> string \<Rightarrow> error + unit" where
  "validateMetricOperation operation metric =
     (if (operation = ''sum'' \<or> operation = ''total'') \<and> metric \<in> set NON_SUMMABLE_METRICS
      then Inl (CriticalNonSummable metric)
      else Inr ())"

definition toLowerCase :: "string \<Rightarrow> string" where
  "toLowerCase s =
     map (\<lambda>c. if 65 \<le> (of_char c :: nat) \<and> (of_char c :: nat) \<le> 90
               then char_of ((of_char c :: nat) + 32) else c) s"

text \<open>The filter
  \<open>value !== null && value !== undefined && !isNaN(value) && value >= 0\<close>.\<close>

definition valid_value :: "jsnum option \<Rightarrow> bool" where
  "valid_value v = (case v of None \<Rightarrow> False | Some n \<Rightarrow> \<not> isNaN n \<and> js_ge n (Fin 0))"

text \<open>\<open>list.map(data => data.metrics[metric]).filter(...)\<close> with the filter above.\<close>

definition valid_values :: "MonthlyAccountData list \<Rightarrow> string \<Rightarrow> jsnum list" where
  "valid_values ds metric =
     map the (filter valid_value (map (\<lambda>d. metric_get (metrics d) metric) ds))"

definition safeMetricAggregation :: "AccountTimeseries \<Rightarrow> string \<Rightarrow> string \<Rightarrow> error + jsnum" where
  "safeMetricAggregation ts metric operation =
     (if metric = [] \<or> operation = [] then Inl (MissingArgument ''safeMetricAggregation'')
      else (case validateMetricOperation operation metric of
        Inl e \<Rightarrow> Inl e
      | Inr u \<Rightarrow>
         (let monthly = getAllMonthlyData ts in
          if monthly = [] then Inr (Fin 0)
          else
            (let vals = valid_values monthly metric;
                 op = toLowerCase operation
             in if vals = [] then Inr (Fin 0)
                else if op = ''sum'' \<or> op = ''total'' then Inr (reduce_sum vals)
                else if op = ''average'' \<or> op = ''mean''
                  then Inr (Math_round (js_div (reduce_sum vals) (Fin (of_nat (length vals)))))
                else if op = ''min'' \<or> op = ''minimum'' then Inr (Math_min vals)
                else if op = ''max'' \<or> op = ''maximum'' then Inr (Math_max vals)
                else Inl (UnknownOperation operation)))))"

section \<open>Timeseries analytics\<close>

text \<open>A value read from \<open>data.metrics[metric]\<close> is \<open>None\<close> when it is \<open>undefined\<close>; in
  arithmetic \<open>undefined\<close> converts to \<open>NaN\<close>. A result \<open>None\<close> is \<open>null\<close>.\<close>

definition to_number :: "jsnum option \<Rightarrow> jsnum" where
  "to_number v = (case v of None \<Rightarrow> NaN | Some n \<Rightarrow> n)"

definition calculatePercentageChange :: "jsnum option \<Rightarrow> jsnum option \<Rightarrow> jsnum option" where
  "calculatePercentageChange currentValue previousValue =
     (if previousValue = Some (Fin 0) \<or> previousValue = None
      then Some (if js_gt (to_number currentValue) (Fin 0) then Fin 100 else Fin 0)
      else if currentValue = None then None
      else Some (js_mul (js_div (js_sub (to_number currentValue) (to_number previousValue))
                                (to_number previousValue)) (Fin 100)))"

record trend_entry =
  t_period :: period
  t_previousPeriod :: period
  t_currentValue :: "jsnum option"
  t_previousValue :: "jsnum option"
  t_absoluteChange :: jsnum
  t_percentageChange :: "jsnum option"
  t_metric :: string
  t_username :: string
  t_accountId :: string

definition trend_of :: "string \<Rightarrow> MonthlyAccountData \<Rightarrow> MonthlyAccountData \<Rightarrow> trend_entry" where
  "trend_of metric previous current =
     (let currentValue = metric_get (metrics current) metric;
          previousValue = metric_get (metrics previous) metric
      in \<lparr>t_period = getPeriod current,
          t_previousPeriod = getPeriod previous,
          t_currentValue = currentValue,
          t_previousValue = previousValue,
          t_absoluteChange = js_sub (to_number currentValue) (to_number previousValue),
          t_percentageChange = calculatePercentageChange currentValue previousValue,
          t_metric = metric,
          t_username = username (account current),
          t_accountId = accountId (account current)\<rparr>)"

text \<open>The loop \<open>for (let i = 1; i < monthlyData.length; i++)\<close> over
  \<open>monthlyData[i - 1]\<close> and \<open>monthlyData[i]\<close>.\<close>

fun trend_loop :: "string \<Rightarrow> MonthlyAccountData list \<Rightarrow> trend_entry list" where
  "trend_loop metric (previous # current # rest) =
     trend_of metric previous current # trend_loop metric (current # rest)"
| "trend_loop metric ds = []"

definition calculateMonthToMonthTrend ::
  "AccountTimeseries \<Rightarrow> string \<Rightarrow> error + trend_entry list" where
  "calculateMonthToMonthTrend ts metric =
     (if metric = [] then Inl (MissingArgument ''calculateMonthToMonthTrend'')
      else (let monthly = getAllMonthlyData ts in
            if length monthly < 2 then Inr [] else Inr (trend_loop metric monthly)))"

definition calculateMetricTotal :: "AccountTimeseries \<Rightarrow> string \<Rightarrow> error + jsnum" where
  "calculateMetricTotal ts metric =
     (if metric = [] then Inl (MissingArgument ''calculateMetricTotal'')
      else if metric \<notin> set [''followers'', ''views''] then Inl (NotSummableOverMonths metric)
      else (let monthly = getAllMonthlyData ts in
            if monthly = [] then Inr (Fin 0)
            else Inr (foldl (\<lambda>total d.
                        case metric_get (metrics d) metric of
                          None \<Rightarrow> total
                        | Some v \<Rightarrow> if isNaN v then total else js_add total v)
                      (Fin 0) monthly)))"

section \<open>Aggregation service\<close>

text \<open>
  The per-metric result objects. A field that an object literal does not write is
  \<open>None\<close>; no object literal of the service writes a key named \<open>sum\<close>, so the record
  has no such field. The Swedish note texts are one constructor each.
\<close>

datatype agg_note =
    NoteAverageNotSummableOverMonths
  | NoteTotalSummableOverMonths
  | NoteNoData
  | NoteAverageAcrossAccounts

record metric_agg =
  f_type :: string
  f_total :: "jsnum option"
  f_average :: "jsnum option"
  f_min :: "jsnum option"
  f_max :: "jsnum option"
  f_validAccounts :: "nat option"
  f_note :: "agg_note option"

record periods_info =
  p_total :: nat
  p_first :: "period option"
  p_last :: "period option"
  p_included :: "period list"

record account_aggregation =
  a_account :: InstagramAccount
  a_periods :: periods_info
  a_metrics :: "(string \<times> metric_agg) list"

definition allMetrics :: "string list" where
  "allMetrics = [''reach'', ''followers'', ''views'']"

definition createEmptyAggregation :: "InstagramAccount \<Rightarrow> account_aggregation" where
  "createEmptyAggregation acc =
     \<lparr>a_account = acc,
      a_periods = \<lparr>p_total = 0, p_first = None, p_last = None, p_included = []\<rparr>,
      a_metrics =
        map (\<lambda>metric.
               (metric,
                if metric \<in> set NON_SUMMABLE_METRICS
                then \<lparr>f_type = ''average'', f_total = None, f_average = Some (Fin 0),
                      f_min = Some (Fin 0), f_max = Some (Fin 0), f_validAccounts = None,
                      f_note = Some NoteNoData\<rparr>
                else \<lparr>f_type = ''total'', f_total = Some (Fin 0), f_average = Some (Fin 0),
                      f_min = None, f_max = None, f_validAccounts = None,
                      f_note = Some NoteNoData\<rparr>))
            allMetrics\<rparr>"

text \<open>The body of \<open>for (const metric of allMetrics)\<close> in \<open>aggregateAccountData\<close>: every
  value comes from \<open>safeMetricAggregation\<close> on the series itself.\<close>

definition aggregate_metric :: "AccountTimeseries \<Rightarrow> string \<Rightarrow> error + metric_agg" where
  "aggregate_metric ts metric =
     (if metric \<in> set NON_SUMMABLE_METRICS then
        (case safeMetricAggregation ts metric ''average'' of Inl e \<Rightarrow> Inl e | Inr av \<Rightarrow>
         (case safeMetricAggregation ts metric ''min'' of Inl e \<Rightarrow> Inl e | Inr mn \<Rightarrow>
          (case safeMetricAggregation ts metric ''max'' of Inl e \<Rightarrow> Inl e | Inr mx \<Rightarrow>
            Inr \<lparr>f_type = ''average'', f_total = None, f_average = Some av,
                 f_min = Some mn, f_max = Some mx, f_validAccounts = None,
                 f_note = Some NoteAverageNotSummableOverMonths\<rparr>)))
      else
        (case safeMetricAggregation ts metric ''sum'' of Inl e \<Rightarrow> Inl e | Inr tot \<Rightarrow>
         (case safeMetricAggregation ts metric ''average'' of Inl e \<Rightarrow> Inl e | Inr av \<Rightarrow>
            Inr \<lparr>f_type = ''total'', f_total = Some tot, f_average = Some av,
                 f_min = None, f_max = None, f_validAccounts = None,
                 f_note = Some NoteTotalSummableOverMonths\<rparr>)))"

fun aggregate_metrics ::
  "AccountTimeseries \<Rightarrow> string list \<Rightarrow> error + (string \<times> metric_agg) list" where
  "aggregate_metrics ts [] = Inr []"
| "aggregate_metrics ts (metric # rest) =
     (case aggregate_metric ts metric of Inl e \<Rightarrow> Inl e | Inr a \<Rightarrow>
      (case aggregate_metrics ts rest of Inl e \<Rightarrow> Inl e | Inr r \<Rightarrow> Inr ((metric, a) # r)))"

text \<open>\<open>aggregateAccountData(accountTimeseries, periods = null)\<close>; \<open>None\<close> is the default
  \<open>null\<close>.\<close>

definition aggregateAccountData ::
  "AccountTimeseries \<Rightarrow> period list option \<Rightarrow> error + account_aggregation" where
  "aggregateAccountData ts periods =
     (let monthly0 = getAllMonthlyData ts;
          monthly =
            (case periods of
               None \<Rightarrow> monthly0
             | Some ps \<Rightarrow>
                 if 0 < length ps
                 then filter (\<lambda>d. (year d, month d) \<in> set (map (\<lambda>p. (year p, month p)) ps))
                        monthly0
                 else monthly0)
      in if monthly = [] then Inr (createEmptyAggregation (ts_account ts))
         else (case aggregate_metrics ts allMetrics of
                 Inl e \<Rightarrow> Inl e
               | Inr ms \<Rightarrow>
                   Inr \<lparr>a_account = ts_account ts,
                        a_periods = \<lparr>p_total = length monthly,
                                     p_first = Some (getPeriod (hd monthly)),
                                     p_last = Some (getPeriod (last monthly)),
                                     p_included = map getPeriod monthly\<rparr>,
                        a_metrics = ms\<rparr>))"

record period_summary =
  s_period :: period
  totalAccounts :: nat
  s_metrics :: "(string \<times> metric_agg) list"

text \<open>The body of \<open>for (const metric of allMetrics)\<close> in \<open>calculatePeriodSummary\<close>.\<close>

definition summarize_metric :: "MonthlyAccountData list \<Rightarrow> string \<Rightarrow> metric_agg" where
  "summarize_metric periodData metric =
     (let vals = valid_values periodData metric in
      if vals = [] then
        \<lparr>f_type = (if metric \<in> set NON_SUMMABLE_METRICS then ''unique_persons'' else ''countable''),
         f_total = Some (Fin 0), f_average = Some (Fin 0), f_min = Some (Fin 0),
         f_max = Some (Fin 0), f_validAccounts = Some 0, f_note = None\<rparr>
      else if metric \<in> set NON_SUMMABLE_METRICS then
        \<lparr>f_type = ''unique_persons'', f_total = None,
         f_average = Some (Math_round (js_div (reduce_sum vals) (Fin (of_nat (length vals))))),
         f_min = Some (Math_min vals), f_max = Some (Math_max vals),
         f_validAccounts = Some (length vals), f_note = Some NoteAverageAcrossAccounts\<rparr>
      else
        (let total = reduce_sum vals in
         \<lparr>f_type = ''countable'', f_total = Some total,
          f_average = Some (Math_round (js_div total (Fin (of_nat (length vals))))),
          f_min = Some (Math_min vals), f_max = Some (Math_max vals),
          f_validAccounts = Some (length vals), f_note = None\<rparr>))"

definition calculatePeriodSummary ::
  "(string \<Rightarrow> string \<Rightarrow> int) \<Rightarrow> TimeseriesDataset \<Rightarrow> int \<Rightarrow> int \<Rightarrow> period_summary" where
  "calculatePeriodSummary lc ds y m =
     (let periodData = getDataForPeriod lc ds y m in
      if periodData = []
      then \<lparr>s_period = \<lparr>year = y, month = m\<rparr>, totalAccounts = 0, s_metrics = []\<rparr>
      else \<lparr>s_period = \<lparr>year = y, month = m\<rparr>, totalAccounts = length periodData,
            s_metrics = map (\<lambda>metric. (metric, summarize_metric periodData metric)) allMetrics\<rparr>)"

text \<open>One metric of one comparison: \<open>c_current\<close> and \<open>c_previous\<close> are the keys
  \<open>currentAverage\<close>, \<open>previousAverage\<close> (type \<open>average_comparison\<close>) or \<open>currentTotal\<close>,
  \<open>previousTotal\<close> (type \<open>total_comparison\<close>); \<open>c_percentageChange = None\<close> is \<open>null\<close>.\<close>

record metric_comparison =
  c_current :: "jsnum option"
  c_previous :: "jsnum option"
  c_absoluteChange :: jsnum
  c_percentageChange :: "jsnum option"
  c_type :: string

record period_comparison =
  currentPeriod :: period
  previousPeriod :: period
  accountCountChange :: int
  c_metrics :: "(string \<times> metric_comparison) list"

definition compare_values :: "jsnum option \<Rightarrow> jsnum option \<Rightarrow> string \<Rightarrow> metric_comparison" where
  "compare_values currentVal previousVal ty =
     \<lparr>c_current = currentVal, c_previous = previousVal,
      c_absoluteChange = js_sub (to_number currentVal) (to_number previousVal),
      c_percentageChange =
        (if js_gt (to_number previousVal) (Fin 0)
         then Some (js_mul (js_div (js_sub (to_number currentVal) (to_number previousVal))
                                   (to_number previousVal)) (Fin 100))
         else None),
      c_type = ty\<rparr>"

text \<open>Reading \<open>currentMetric.average\<close> when the summary has no entry for the metric (a
  period without data has \<open>metrics: {}\<close>) is a \<open>TypeError\<close>.\<close>

definition compare_metric ::
  "period_summary \<Rightarrow> period_summary \<Rightarrow> string \<Rightarrow> error + metric_comparison" where
  "compare_metric current previous metric =
     (case map_of (s_metrics current) metric of
        None \<Rightarrow> Inl TypeError
      | Some currentMetric \<Rightarrow>
         (case map_of (s_metrics previous) metric of
            None \<Rightarrow> Inl TypeError
          | Some previousMetric \<Rightarrow>
              if metric \<in> set NON_SUMMABLE_METRICS
              then Inr (compare_values (f_average currentMetric) (f_average previousMetric)
                          ''average_comparison'')
              else Inr (compare_values (f_total currentMetric) (f_total previousMetric)
                          ''total_comparison'')))"

fun compare_metrics ::
  "period_summary \<Rightarrow> period_summary \<Rightarrow> string list \<Rightarrow> error + (string \<times> metric_comparison) list" where
  "compare_metrics current previous [] = Inr []"
| "compare_metrics current previous (metric # rest) =
     (case compare_metric current previous metric of Inl e \<Rightarrow> Inl e | Inr c \<Rightarrow>
      (case compare_metrics current previous rest of Inl e \<Rightarrow> Inl e
       | Inr r \<Rightarrow> Inr ((metric, c) # r)))"

text \<open>The loop \<open>for (let i = 1; i < periodSummaries.length; i++)\<close>.\<close>

fun compare_loop :: "period_summary list \<Rightarrow> error + period_comparison list" where
  "compare_loop (previous # current # rest) =
     (case compare_metrics current previous allMetrics of
        Inl e \<Rightarrow> Inl e
      | Inr ms \<Rightarrow>
         (case compare_loop (current # rest) of
            Inl e \<Rightarrow> Inl e
          | Inr r \<Rightarrow>
              Inr (\<lparr>currentPeriod = s_period current, previousPeriod = s_period previous,
                    accountCountChange = int (totalAccounts current) - int (totalAccounts previous),
                    c_metrics = ms\<rparr> # r)))"
| "compare_loop ss = Inr []"

definition comparePeriods ::
  "(string \<Rightarrow> string \<Rightarrow> int) \<Rightarrow> TimeseriesDataset \<Rightarrow> period list \<Rightarrow> error + period_comparison list" where
  "comparePeriods lc ds periods =
     (if length periods < 2 then Inl ComparePeriodsArguments
      else compare_loop (map (\<lambda>p. calculatePeriodSummary lc ds (year p) (month p)) periods))"



section \<open>Period extractor\<close>

text \<open>\<open>new Date().getFullYear()\<close> is the parameter \<open>currentYear\<close>.\<close>

definition isValidYear :: "int \<Rightarrow> int \<Rightarrow> bool" where
  "isValidYear currentYear y = (y \<ge> 2010 \<and> y \<le> currentYear + 5)"

definition isValidMonth :: "int \<Rightarrow> bool" where
  "isValidMonth m = (m \<ge> 1 \<and> m \<le> 12)"

definition isValidPeriod :: "int \<Rightarrow> int \<Rightarrow> int \<Rightarrow> bool" where
  "isValidPeriod currentYear y m = (isValidYear currentYear y \<and> isValidMonth m)"

text \<open>Decimal text of an integer, as a template literal and \<open>toString\<close> print it.\<close>

fun show_nat :: "nat \<Rightarrow> string" where
  "show_nat n =
     (if n < 10 then [char_of (48 + n)]
      else show_nat (n div 10) @ [char_of (48 + n mod 10)])"

definition show_int :: "int \<Rightarrow> string" where
  "show_int i = (if i < 0 then CHR ''-'' # show_nat (nat (- i)) else show_nat (nat i))"

text \<open>\<open>s.padStart(2, '0')\<close>\<close>

definition padStart2 :: "string \<Rightarrow> string" where
  "padStart2 s = replicate (2 - length s) CHR ''0'' @ s"

definition createStandardFilename :: "int \<Rightarrow> int \<Rightarrow> int \<Rightarrow> error + string" where
  "createStandardFilename currentYear y m =
     (if \<not> isValidPeriod currentYear y m then Inl (InvalidPeriod y m)
      else Inr (''IG_'' @ show_int y @ ''_'' @ padStart2 (show_int m) @ ''.csv''))"

record period_file = period +
  filename :: string

text \<open>
  The \<open>while\<close> loop of \<open>findMissingPeriods\<close>: \<open>existing\<close> holds the keys of the set
  \<open>existingPeriods\<close>, \<open>(ly, lm)\<close> is the last period, \<open>(cy, cm)\<close> the current one and
  \<open>missing\<close> the array built so far. \<open>createStandardFilename\<close> may throw inside it.
\<close>

function missing_loop ::
  "int \<Rightarrow> (int \<times> int) list \<Rightarrow> int \<Rightarrow> int \<Rightarrow> int \<Rightarrow> int \<Rightarrow> period_file list
     \<Rightarrow> error + period_file list" where
  "missing_loop currentYear existing ly lm cy cm missing =
     (if cy < ly \<or> (cy = ly \<and> cm \<le> lm) then
        (case (if (cy, cm) \<notin> set existing
               then (case createStandardFilename currentYear cy cm of
                       Inl e \<Rightarrow> Inl e
                     | Inr f \<Rightarrow> Inr (missing @ [\<lparr>year = cy, month = cm, filename = f\<rparr>]))
               else Inr missing) of
           Inl e \<Rightarrow> Inl e
         | Inr missing' \<Rightarrow>
             missing_loop currentYear existing ly lm
               (if cm + 1 > 12 then cy + 1 else cy)
               (if cm + 1 > 12 then 1 else cm + 1)
               missing')
      else Inr missing)"
  by pat_completeness auto
termination
  by (relation "measures [\<lambda>(currentYear, existing, ly, lm, cy, cm, missing). nat (ly - cy + 1),
                          \<lambda>(currentYear, existing, ly, lm, cy, cm, missing). nat (13 - cm)]")
     auto

definition findMissingPeriods :: "int \<Rightarrow> period list \<Rightarrow> error + period_file list" where
  "findMissingPeriods currentYear periods =
     (if periods = [] then Inr []
      else
        (let sortedPeriods = sort_by (\<lambda>a b. 0 < period_cmp a b) periods;
             first = hd sortedPeriods;
             lastp = last sortedPeriods;
             existing = map (\<lambda>p. (year p, month p)) periods
         in missing_loop currentYear existing (year lastp) (month lastp)
              (year first) (month first) []))"

section \<open>Period validator: CSV content\<close>

text \<open>
  The entries of the \<open>errors\<close> and \<open>warnings\<close> arrays; each constructor stands for one
  message template and carries the values the template prints.
\<close>

datatype issue =
    MissingAccount nat
  | MissingIGID nat
  | NotNumeric nat string string
  | NegativeValue nat string jsnum
  | NoData
  | NoValidRows
  | FewValidRows nat nat
  | RowErrorsWarning nat "issue list"
  | TooManyRowErrors nat nat

record validation =
  isValid :: bool
  errors :: "issue list"
  warnings :: "issue list"

text \<open>\<open>!v || v.trim() === ''\<close> (for the id, \<open>v.toString().trim()\<close>).\<close>

definition blank :: "jsval \<Rightarrow> bool" where
  "blank v = (case v of Str s \<Rightarrow> s = [] \<or> trim s = [] | _ \<Rightarrow> True)"

definition numericFields :: "string list" where
  "numericFields = [''Reach'', ''Views'', ''Followers'', ''Status'', ''Comment'']"

definition check_numeric :: "csvrow \<Rightarrow> nat \<Rightarrow> string \<Rightarrow> issue list" where
  "check_numeric row rowNumber field =
     (case row field of
        Str s \<Rightarrow>
          if s = [] then []
          else (let numValue = parseFloat (remove_commas s)
                in if isNaN numValue then [NotNumeric rowNumber field s]
                   else if js_lt numValue (Fin 0) then [NegativeValue rowNumber field numValue]
                   else [])
      | _ \<Rightarrow> [])"

definition validateDataRow :: "csvrow \<Rightarrow> nat \<Rightarrow> validation" where
  "validateDataRow row rowNumber =
     (let errs = (if blank (row ''Account'') then [MissingAccount rowNumber] else [])
                 @ (if blank (row ''IG ID'') then [MissingIGID rowNumber] else []);
          warns = concat (map (check_numeric row rowNumber) numericFields)
      in \<lparr>isValid = (length errs = 0), errors = errs, warnings = warns\<rparr>)"

text \<open>The loop \<open>for (let i = 0; i < csvData.length; i++)\<close> with its three accumulators
  \<open>validRows\<close>, \<open>rowErrors\<close> and \<open>warnings\<close>.\<close>

fun rows_loop ::
  "csvrow list \<Rightarrow> nat \<Rightarrow> nat \<times> issue list \<times> issue list \<Rightarrow> nat \<times> issue list \<times> issue list" where
  "rows_loop [] i acc = acc"
| "rows_loop (row # rest) i (validRows, rowErrors, warns) =
     (let rowValidation = validateDataRow row (i + 1) in
      rows_loop rest (i + 1)
        (if isValid rowValidation then validRows + 1 else validRows,
         if isValid rowValidation then rowErrors else rowErrors @ errors rowValidation,
         warns @ warnings rowValidation))"

text \<open>The thresholds \<open>csvData.length * 0.8\<close> and \<open>csvData.length * 0.5\<close> are compared
  exactly.\<close>

definition validateCSVDataContent :: "csvrow list \<Rightarrow> validation" where
  "validateCSVDataContent csvData =
     (if csvData = [] then \<lparr>isValid = False, errors = [NoData], warnings = []\<rparr>
      else
        (let n = length csvData;
             res = rows_loop csvData 0 (0, [], []);
             validRows = fst res;
             rowErrors = fst (snd res);
             warns0 = snd (snd res);
             errs1 = (if validRows = 0 then [NoValidRows] else []);
             warns1 = warns0 @
               (if validRows \<noteq> 0 \<and> (of_nat validRows :: rat) < of_nat n * (8 / 10)
                then [FewValidRows validRows n] else []);
             few = (length rowErrors > 0 \<and> (of_nat (length rowErrors) :: rat) < of_nat n * (5 / 10));
             many = (\<not> few \<and> (of_nat (length rowErrors) :: rat) \<ge> of_nat n * (5 / 10));
             warns2 = warns1 @
               (if few then [RowErrorsWarning (length rowErrors) (take 10 rowErrors)] else []);
             errs2 = errs1 @ (if many then [TooManyRowErrors (length rowErrors) n] else [])
         in \<lparr>isValid = (length errs2 = 0), errors = errs2, warnings = warns2\<rparr>))"

section \<open>Building concrete inputs\<close>

text \<open>The row object Papa Parse builds from header names and cell texts.\<close>

definition row_of :: "(string \<times> string) list \<Rightarrow> csvrow" where
  "row_of cells = (\<lambda>k. case map_of cells k of None \<Rightarrow> Undefined | Some s \<Rightarrow> Str s)"

text \<open>\<open>dataset.addMonthlyData(MonthlyAccountData.fromCSVRow(row, year, month))\<close>, as the
  CSV processor runs it for every row of a file.\<close>

definition addRow :: "TimeseriesDataset \<Rightarrow> csvrow \<times> int \<times> int \<Rightarrow> error + TimeseriesDataset" where
  "addRow ds r =
     (case MonthlyAccountData_fromCSVRow (fst r) (fst (snd r)) (snd (snd r)) of
        Inl e \<Rightarrow> Inl e
      | Inr d \<Rightarrow> TimeseriesDataset_addMonthlyData ds d)"

fun addRows :: "TimeseriesDataset \<Rightarrow> (csvrow \<times> int \<times> int) list \<Rightarrow> error + TimeseriesDataset" where
  "addRows ds [] = Inr ds"
| "addRows ds (r # rs) = (case addRow ds r of Inl e \<Rightarrow> Inl e | Inr ds' \<Rightarrow> addRows ds' rs)"

text \<open>One collation for the concrete examples: comparison by character code.\<close>

fun codeunit_compare :: "string \<Rightarrow> string \<Rightarrow> int" where
  "codeunit_compare [] [] = 0"
| "codeunit_compare [] (b # bs) = - 1"
| "codeunit_compare (a # as) [] = 1"
| "codeunit_compare (a # as) (b # bs) =
     (if (of_char a :: nat) < of_char b then - 1
      else if (of_char b :: nat) < of_char a then 1
      else codeunit_compare as bs)"

text \<open>\<open>getRecord\<close> of the specification: the series of the account, then its record of
  the period.\<close>

definition getRecord :: "TimeseriesDataset \<Rightarrow> string \<Rightarrow> int \<Rightarrow> int \<Rightarrow> MonthlyAccountData option" where
  "getRecord ds aid y m =
     (case getAccountTimeseries ds aid of None \<Rightarrow> None | Some ts \<Rightarrow> getMonthlyData ts y m)"

text \<open>Every series is stored under the key of its own account: what
  \<open>TimeseriesDataset.addMonthlyData\<close> establishes and keeps.\<close>

definition dataset_inv :: "TimeseriesDataset \<Rightarrow> bool" where
  "dataset_inv ds = (\<forall>e \<in> set (accountTimeseries ds). fst e = getKey (ts_account (snd e)))"




text \<open>Two records of one account for the same period, with different metric values.\<close>

definition record_2025_09 :: MonthlyAccountData where
  "record_2025_09 =
     \<lparr>year = 2025, month = 9,
      account = \<lparr>username = ''alpha'', accountId = ''1'', displayName = ''Alpha''\<rparr>,
      metrics = \<lparr>reach = Fin 1000, followers = Fin 100, views = Fin 100\<rparr>\<rparr>"

definition record_2025_09_again :: MonthlyAccountData where
  "record_2025_09_again =
     \<lparr>year = 2025, month = 9,
      account = \<lparr>username = ''alpha'', accountId = ''1'', displayName = ''Alpha''\<rparr>,
      metrics = \<lparr>reach = Fin 7, followers = Fin 8, views = Fin 9\<rparr>\<rparr>"

text \<open>The series that \<open>addMonthlyData\<close> writes to: the one stored under the account's key,
  or a new one.\<close>

definition series_for :: "TimeseriesDataset \<Rightarrow> MonthlyAccountData \<Rightarrow> AccountTimeseries" where
  "series_for ds d =
     (case map_of (accountTimeseries ds) (getKey (account d)) of
        None \<Rightarrow> AccountTimeseries_new (account d) | Some ts \<Rightarrow> ts)"

text \<open>
  One account with two months of data, as rows and as the dataset that ingesting the
  rows builds: reach 1000 and 3000, views 100 and 200, followers 0 and 50.
\<close>

definition row_alpha_08 :: csvrow where
  "row_alpha_08 =
     row_of [(''Account'', ''alpha''), (''Account Name'', ''Alpha''), (''IG ID'', ''1''),
             (''Reach'', ''1000''), (''Views'', ''100''), (''Followers'', ''0'')]"

definition row_alpha_09 :: csvrow where
  "row_alpha_09 =
     row_of [(''Account'', ''alpha''), (''Account Name'', ''Alpha''), (''IG ID'', ''1''),
             (''Reach'', ''3000''), (''Views'', ''200''), (''Followers'', ''50'')]"

definition rows_alpha :: "(csvrow \<times> int \<times> int) list" where
  "rows_alpha = [(row_alpha_08, 2025, 8), (row_alpha_09, 2025, 9)]"

definition account_alpha :: InstagramAccount where
  "account_alpha = \<lparr>username = ''alpha'', accountId = ''1'', displayName = ''Alpha''\<rparr>"

definition alpha_2025_08 :: MonthlyAccountData where
  "alpha_2025_08 =
     \<lparr>year = 2025, month = 8, account = account_alpha,
      metrics = \<lparr>reach = Fin 1000, followers = Fin 0, views = Fin 100\<rparr>\<rparr>"

definition alpha_2025_09 :: MonthlyAccountData where
  "alpha_2025_09 =
     \<lparr>year = 2025, month = 9, account = account_alpha,
      metrics = \<lparr>reach = Fin 3000, followers = Fin 50, views = Fin 200\<rparr>\<rparr>"

definition series_alpha :: AccountTimeseries where
  "series_alpha =
     \<lparr>ts_account = account_alpha,
      monthlyData = [((2025, 8), alpha_2025_08), ((2025, 9), alpha_2025_09)]\<rparr>"

definition dataset_alpha :: TimeseriesDataset where
  "dataset_alpha = \<lparr>accountTimeseries = [(''account_1'', series_alpha)]\<rparr>"

text \<open>One account whose only row for 2025-09 has the reach cell \<open>-5\<close>.\<close>

definition row_negative_reach :: csvrow where
  "row_negative_reach =
     row_of [(''Account'', ''alpha''), (''Account Name'', ''Alpha''), (''IG ID'', ''1''),
             (''Reach'', ''-5''), (''Views'', ''100''), (''Followers'', ''10'')]"

definition alpha_negative_reach :: MonthlyAccountData where
  "alpha_negative_reach =
     \<lparr>year = 2025, month = 9,
      account = \<lparr>username = ''alpha'', accountId = ''1'', displayName = ''Alpha''\<rparr>,
      metrics = \<lparr>reach = Fin (- 5), followers = Fin 10, views = Fin 100\<rparr>\<rparr>"

definition dataset_negative_reach :: TimeseriesDataset where
  "dataset_negative_reach =
     \<lparr>accountTimeseries =
        [(''account_1'',
          \<lparr>ts_account = \<lparr>username = ''alpha'', accountId = ''1'', displayName = ''Alpha''\<rparr>,
           monthlyData = [((2025, 9), alpha_negative_reach)]\<rparr>)]\<rparr>"

text \<open>Three parsed rows: the first has neither account handle nor id, the other two are
  complete.\<close>

definition rows_one_blank :: "csvrow list" where
  "rows_one_blank =
     [row_of [(''Account'', ''''), (''Account Name'', ''''), (''IG ID'', ''''),
              (''Reach'', ''10''), (''Views'', ''20''), (''Followers'', ''30'')],
      row_of [(''Account'', ''alpha''), (''Account Name'', ''Alpha''), (''IG ID'', ''1''),
              (''Reach'', ''10''), (''Views'', ''20''), (''Followers'', ''30'')],
      row_of [(''Account'', ''beta''), (''Account Name'', ''Beta''), (''IG ID'', ''2''),
              (''Reach'', ''10''), (''Views'', ''20''), (''Followers'', ''30'')]]"

text \<open>
  The conventions for a percentage change, as predicates on one entry of a result:
  \<open>relative_change\<close> is the standard relative change
  \<open>((current - previous) / previous) * 100\<close>.
\<close>

definition relative_change :: "jsnum \<Rightarrow> jsnum \<Rightarrow> jsnum" where
  "relative_change c p = js_mul (js_div (js_sub c p) p) (Fin 100)"

definition trend_convention :: "trend_entry \<Rightarrow> bool" where
  "trend_convention e =
     (t_percentageChange e =
        (if t_previousValue e = Some (Fin 0) \<or> t_previousValue e = None
         then Some (if js_gt (to_number (t_currentValue e)) (Fin 0) then Fin 100 else Fin 0)
         else if t_currentValue e = None then None
         else Some (relative_change (to_number (t_currentValue e))
                      (to_number (t_previousValue e)))))"

definition comparison_convention :: "metric_comparison \<Rightarrow> bool" where
  "comparison_convention mc =
     (c_percentageChange mc =
        (if js_gt (to_number (c_previous mc)) (Fin 0)
         then Some (relative_change (to_number (c_current mc)) (to_number (c_previous mc)))
         else None))"

text \<open>The value of a period summary that \<open>comparePeriods\<close> compares for a metric:
  the average of a non-summable metric, the total of a summable one.\<close>

definition summary_value :: "period_summary \<Rightarrow> string \<Rightarrow> jsnum option" where
  "summary_value s metric =
     (case map_of (s_metrics s) metric of
        None \<Rightarrow> None
      | Some a \<Rightarrow> if metric \<in> set NON_SUMMABLE_METRICS then f_average a else f_total a)"

definition comparison_ok ::
  "period_summary \<Rightarrow> period_summary \<Rightarrow> string \<times> metric_comparison \<Rightarrow> bool" where
  "comparison_ok current previous e =
     (comparison_convention (snd e) \<and> c_current (snd e) = summary_value current (fst e)
      \<and> c_previous (snd e) = summary_value previous (fst e))"

text \<open>What one entry of the result of \<open>comparePeriods\<close> satisfies: every metric of it
  follows the convention, on the values of the summaries of its two periods.\<close>

definition comparison_entry_ok ::
  "(string \<Rightarrow> string \<Rightarrow> int) \<Rightarrow> TimeseriesDataset \<Rightarrow> period_comparison \<Rightarrow> bool" where
  "comparison_entry_ok lc ds c =
     list_all
       (comparison_ok
          (calculatePeriodSummary lc ds (year (currentPeriod c)) (month (currentPeriod c)))
          (calculatePeriodSummary lc ds (year (previousPeriod c)) (month (previousPeriod c))))
       (c_metrics c)"

text \<open>The trend of followers of the example series, and the comparison of its two
  periods.\<close>

definition trend_alpha_followers :: "trend_entry list" where
  "trend_alpha_followers =
     [\<lparr>t_period = \<lparr>year = 2025, month = 9\<rparr>, t_previousPeriod = \<lparr>year = 2025, month = 8\<rparr>,
       t_currentValue = Some (Fin 50), t_previousValue = Some (Fin 0),
       t_absoluteChange = Fin 50, t_percentageChange = Some (Fin 100),
       t_metric = ''followers'', t_username = ''alpha'', t_accountId = ''1''\<rparr>]"

definition comparisons_alpha :: "period_comparison list" where
  "comparisons_alpha =
     [\<lparr>currentPeriod = \<lparr>year = 2025, month = 9\<rparr>,
       previousPeriod = \<lparr>year = 2025, month = 8\<rparr>,
       accountCountChange = 0,
       c_metrics =
         [(''reach'',
           \<lparr>c_current = Some (Fin 3000), c_previous = Some (Fin 1000),
            c_absoluteChange = Fin 2000, c_percentageChange = Some (Fin 200),
            c_type = ''average_comparison''\<rparr>),
          (''followers'',
           \<lparr>c_current = Some (Fin 50), c_previous = Some (Fin 0),
            c_absoluteChange = Fin 50, c_percentageChange = None,
            c_type = ''total_comparison''\<rparr>),
          (''views'',
           \<lparr>c_current = Some (Fin 200), c_previous = Some (Fin 100),
            c_absoluteChange = Fin 100, c_percentageChange = Some (Fin 100),
            c_type = ''total_comparison''\<rparr>)]\<rparr>]"







text \<open>A second account, and the dataset of both accounts.\<close>

definition account_beta :: InstagramAccount where
  "account_beta = \<lparr>username = ''beta'', accountId = ''2'', displayName = ''Beta''\<rparr>"

definition beta_2025_08 :: MonthlyAccountData where
  "beta_2025_08 =
     \<lparr>year = 2025, month = 8, account = account_beta,
      metrics = \<lparr>reach = Fin 500, followers = Fin 10, views = Fin 1\<rparr>\<rparr>"

definition beta_2025_09 :: MonthlyAccountData where
  "beta_2025_09 =
     \<lparr>year = 2025, month = 9, account = account_beta,
      metrics = \<lparr>reach = Fin 700, followers = Fin 25, views = Fin 2\<rparr>\<rparr>"

definition series_beta :: AccountTimeseries where
  "series_beta =
     \<lparr>ts_account = account_beta,
      monthlyData = [((2025, 8), beta_2025_08), ((2025, 9), beta_2025_09)]\<rparr>"

definition dataset_pair :: TimeseriesDataset where
  "dataset_pair =
     \<lparr>accountTimeseries = [(''account_1'', series_alpha), (''account_2'', series_beta)]\<rparr>"








text \<open>
  Months as pairs \<open>(year, month)\<close>, for stating what \<open>findMissingPeriods\<close> returns:
  \<open>next_month\<close> is the step of its loop, \<open>month_range p n\<close> the \<open>n\<close> consecutive months
  from \<open>p\<close> on, \<open>period_key\<close> the pair of a period, \<open>month_index\<close> the number of a month
  on the time line, and \<open>missing_entry\<close> the object the loop pushes for a month, with
  the file name \<open>createStandardFilename\<close> returns for a valid period.
\<close>

definition next_month :: "int \<times> int \<Rightarrow> int \<times> int" where
  "next_month p = (if snd p + 1 > 12 then (fst p + 1, 1) else (fst p, snd p + 1))"

fun month_range :: "int \<times> int \<Rightarrow> nat \<Rightarrow> (int \<times> int) list" where
  "month_range p 0 = []"
| "month_range p (Suc n) = p # month_range (next_month p) n"

definition period_key :: "period \<Rightarrow> int \<times> int" where
  "period_key p = (year p, month p)"

definition valid_month :: "int \<times> int \<Rightarrow> bool" where
  "valid_month p = (1 \<le> snd p \<and> snd p \<le> 12)"

definition month_index :: "int \<times> int \<Rightarrow> int" where
  "month_index p = 12 * fst p + snd p"

definition standard_filename :: "int \<Rightarrow> int \<Rightarrow> string" where
  "standard_filename y m = ''IG_'' @ show_int y @ ''_'' @ padStart2 (show_int m) @ ''.csv''"

definition missing_entry :: "int \<times> int \<Rightarrow> period_file" where
  "missing_entry p = \<lparr>year = fst p, month = snd p, filename = standard_filename (fst p) (snd p)\<rparr>"

section \<open>Records of the data model\<close>

declare show_nat.simps [simp del]
declare missing_loop.simps [simp del]





lemma map_of_map_set_same: "map_of (map_set k v m) k = Some v"
  by (induction m) auto

lemma map_of_map_set_other: "k' \<noteq> k \<Longrightarrow> map_of (map_set k v m) k' = map_of m k'"
  by (induction m) auto

lemma map_set_same_value: "map_of m k = Some v \<Longrightarrow> map_set k v m = m"
  by (induction m) (auto split: if_splits)

lemma map_set_twice: "map_set k v (map_set k v' m) = map_set k v m"
  by (induction m) auto

lemma set_map_set: "set (map_set k v m) \<subseteq> insert (k, v) (set m)"
  by (induction m) auto

lemma length_map_set_present: "map_of m k = Some v' \<Longrightarrow> length (map_set k v m) = length m"
  by (induction m) (auto split: if_splits)

lemma totalDataPoints_sum:
  "totalDataPoints ds = sum_list (map (\<lambda>e. getMonthCount (snd e)) (accountTimeseries ds))"
proof -
  have "foldl (\<lambda>s ts. s + getMonthCount ts) a (map snd m)
          = a + sum_list (map (\<lambda>e. getMonthCount (snd e)) m)" for a and m :: "(string \<times> AccountTimeseries) list"
    by (induction m arbitrary: a) auto
  then show ?thesis by (simp add: totalDataPoints_def)
qed

lemma sum_map_set_same_count:
  "map_of m k = Some ts \<Longrightarrow> getMonthCount ts' = getMonthCount ts \<Longrightarrow>
   sum_list (map (\<lambda>e. getMonthCount (snd e)) (map_set k ts' m))
     = sum_list (map (\<lambda>e. getMonthCount (snd e)) m)"
  by (induction m) (auto split: if_splits)

lemma add_to_series:
  assumes "accountId (account d) = accountId (ts_account ts)"
  shows "AccountTimeseries_addMonthlyData ts d
           = Inr (ts\<lparr>monthlyData := map_set (year d, month d) d (monthlyData ts)\<rparr>)"
  using assms by (simp add: AccountTimeseries_addMonthlyData_def)

lemma inv_lookup:
  assumes "dataset_inv ds" and "map_of (accountTimeseries ds) k = Some ts"
  shows "k = getKey (ts_account ts)"
  using assms map_of_SomeD unfolding dataset_inv_def by fastforce

lemma getKey_inj: "getKey a = getKey b \<Longrightarrow> accountId a = accountId b"
  by (simp add: getKey_def)

lemma add_result:
  assumes "dataset_inv ds"
  shows "TimeseriesDataset_addMonthlyData ds d
           = Inr (ds\<lparr>accountTimeseries :=
                    map_set (getKey (account d))
                      ((series_for ds d)\<lparr>monthlyData :=
                          map_set (year d, month d) d (monthlyData (series_for ds d))\<rparr>)
                      (accountTimeseries ds)\<rparr>)"
proof (cases "map_of (accountTimeseries ds) (getKey (account d))")
  case None
  then show ?thesis
    by (simp add: TimeseriesDataset_addMonthlyData_def series_for_def map_of_map_set_same
        AccountTimeseries_addMonthlyData_def AccountTimeseries_new_def map_set_twice Let_def)
next
  case (Some ts)
  then have "accountId (account d) = accountId (ts_account ts)"
    using inv_lookup [OF assms Some] getKey_inj by blast
  then show ?thesis using Some
    by (simp add: TimeseriesDataset_addMonthlyData_def series_for_def add_to_series Let_def)
qed


lemma series_account:
  assumes "dataset_inv ds"
  shows "getKey (ts_account (series_for ds d)) = getKey (account d)"
proof (cases "map_of (accountTimeseries ds) (getKey (account d))")
  case None
  then show ?thesis by (simp add: series_for_def AccountTimeseries_new_def)
next
  case (Some ts)
  then show ?thesis using inv_lookup [OF assms Some] by (simp add: series_for_def)
qed

lemma add_keeps_inv:
  assumes "dataset_inv ds"
  shows "dataset_inv (ds\<lparr>accountTimeseries :=
            map_set (getKey (account d))
              ((series_for ds d)\<lparr>monthlyData := ms\<rparr>) (accountTimeseries ds)\<rparr>)"
  using assms series_account [OF assms, of d]
    set_map_set [of "getKey (account d)" "(series_for ds d)\<lparr>monthlyData := ms\<rparr>" "accountTimeseries ds"]
  unfolding dataset_inv_def by auto

text \<open>
  Claim C6. In every dataset state that \<open>addMonthlyData\<close> can have produced, adding a
  record \<open>d\<close> succeeds; adding the identical record again returns the same dataset, so
  the record count is unchanged; and adding a record \<open>d'\<close> with the same account id, year
  and month leaves the record count unchanged and makes \<open>d'\<close> itself, not a merge, the
  record of that key.
\<close>

theorem addMonthlyData_upsert:
  assumes "dataset_inv ds"
    and "accountId (account d') = accountId (account d)"
    and "year d' = year d" and "month d' = month d"
  shows "\<exists>ds1 ds2.
           TimeseriesDataset_addMonthlyData ds d = Inr ds1
         \<and> TimeseriesDataset_addMonthlyData ds1 d = Inr ds1
         \<and> TimeseriesDataset_addMonthlyData ds1 d' = Inr ds2
         \<and> totalDataPoints ds2 = totalDataPoints ds1
         \<and> getRecord ds1 (accountId (account d)) (year d) (month d) = Some d
         \<and> getRecord ds2 (accountId (account d)) (year d) (month d) = Some d'
         \<and> dataset_inv ds2"
proof -
  define key where "key = getKey (account d)"
  define ts1 where
    "ts1 = (series_for ds d)\<lparr>monthlyData :=
              map_set (year d, month d) d (monthlyData (series_for ds d))\<rparr>"
  define ds1 where "ds1 = ds\<lparr>accountTimeseries := map_set key ts1 (accountTimeseries ds)\<rparr>"
  define ts2 where "ts2 = ts1\<lparr>monthlyData := map_set (year d, month d) d' (monthlyData ts1)\<rparr>"
  define ds2 where "ds2 = ds1\<lparr>accountTimeseries := map_set key ts2 (accountTimeseries ds1)\<rparr>"
  have key': "getKey (account d') = key"
    using assms(2) by (simp add: key_def getKey_def)
  have first: "TimeseriesDataset_addMonthlyData ds d = Inr ds1"
    using add_result [OF assms(1), of d] by (simp add: ds1_def ts1_def key_def)
  have inv1: "dataset_inv ds1"
    using add_keeps_inv [OF assms(1)] by (simp add: ds1_def ts1_def key_def)
  have look1: "map_of (accountTimeseries ds1) key = Some ts1"
    by (simp add: ds1_def map_of_map_set_same)
  have ser1: "series_for ds1 d = ts1" and ser1': "series_for ds1 d' = ts1"
    using look1 key' by (simp_all add: series_for_def key_def)
  have rec1: "map_of (monthlyData ts1) (year d, month d) = Some d"
    by (simp add: ts1_def map_of_map_set_same)
  have same_ts: "ts1\<lparr>monthlyData := map_set (year d, month d) d (monthlyData ts1)\<rparr> = ts1"
    using map_set_same_value [OF rec1] by simp
  have again: "TimeseriesDataset_addMonthlyData ds1 d = Inr ds1"
    using add_result [OF inv1, of d] map_set_same_value [OF look1]
    by (simp add: ser1 same_ts key_def)
  have second: "TimeseriesDataset_addMonthlyData ds1 d' = Inr ds2"
    using add_result [OF inv1, of d'] key' assms(3,4)
    by (simp add: ser1' ds2_def ts2_def)
  have cnt: "getMonthCount ts2 = getMonthCount ts1"
    using length_map_set_present [OF rec1] by (simp add: getMonthCount_def ts2_def)
  have total: "totalDataPoints ds2 = totalDataPoints ds1"
    using sum_map_set_same_count [OF look1 cnt] by (simp add: totalDataPoints_sum ds2_def)
  have key_id: "''account_'' @ accountId (account d) = key"
    by (simp add: key_def getKey_def)
  have get1: "getRecord ds1 (accountId (account d)) (year d) (month d) = Some d"
    using look1 rec1 unfolding getRecord_def getAccountTimeseries_def getMonthlyData_def key_id
    by simp
  have look2: "map_of (accountTimeseries ds2) key = Some ts2"
    by (simp add: ds2_def map_of_map_set_same)
  have rec2: "map_of (monthlyData ts2) (year d, month d) = Some d'"
    by (simp add: ts2_def map_of_map_set_same)
  have get2: "getRecord ds2 (accountId (account d)) (year d) (month d) = Some d'"
    using look2 rec2 unfolding getRecord_def getAccountTimeseries_def getMonthlyData_def key_id
    by simp
  have inv2: "dataset_inv ds2"
    using add_keeps_inv [OF inv1, of d'] key' by (simp add: ds2_def ts2_def ser1')
  show ?thesis
    using first again second total get1 get2 inv2 by blast
qed


theorem addMonthlyData_upsert_witness:
  "dataset_inv TimeseriesDataset_new
   \<and> accountId (account record_2025_09_again) = accountId (account record_2025_09)
   \<and> year record_2025_09_again = year record_2025_09
   \<and> month record_2025_09_again = month record_2025_09
   \<and> (\<exists>ds1 ds2.
           TimeseriesDataset_addMonthlyData TimeseriesDataset_new record_2025_09 = Inr ds1
         \<and> TimeseriesDataset_addMonthlyData ds1 record_2025_09 = Inr ds1
         \<and> TimeseriesDataset_addMonthlyData ds1 record_2025_09_again = Inr ds2
         \<and> totalDataPoints ds2 = totalDataPoints ds1
         \<and> getRecord ds1 (accountId (account record_2025_09)) (year record_2025_09)
               (month record_2025_09) = Some record_2025_09
         \<and> getRecord ds2 (accountId (account record_2025_09)) (year record_2025_09)
               (month record_2025_09) = Some record_2025_09_again
         \<and> dataset_inv ds2)"
proof -
  have h1: "dataset_inv TimeseriesDataset_new"
    by (simp add: dataset_inv_def TimeseriesDataset_new_def)
  have h2: "accountId (account record_2025_09_again) = accountId (account record_2025_09)"
    by (simp add: record_2025_09_def record_2025_09_again_def)
  have h3: "year record_2025_09_again = year record_2025_09"
    by (simp add: record_2025_09_def record_2025_09_again_def)
  have h4: "month record_2025_09_again = month record_2025_09"
    by (simp add: record_2025_09_def record_2025_09_again_def)
  note c = addMonthlyData_upsert [OF h1 h2 h3 h4]
  show ?thesis
    by (rule conjI [OF h1 conjI [OF h2 conjI [OF h3 conjI [OF h4 c]]]])
qed

section \<open>The example datasets are what ingestion builds\<close>

lemmas row_defs =
  MonthlyAccountData_fromCSVRow_def InstagramAccount_fromCSVRow_def InstagramAccount_new_def
  row_of_def js_or_def MonthlyAccountData_new_def validateMetrics_def parseNumeric_def
  parseFloat_def remove_commas_def is_ws_def is_digit_def digits_val_def pow10_def isNaN_def
  trim_def Let_def

lemma row_alpha_08_record: "MonthlyAccountData_fromCSVRow row_alpha_08 2025 8 = Inr alpha_2025_08"
  by (simp add: row_defs row_alpha_08_def alpha_2025_08_def account_alpha_def)

lemma row_alpha_09_record: "MonthlyAccountData_fromCSVRow row_alpha_09 2025 9 = Inr alpha_2025_09"
  by (simp add: row_defs row_alpha_09_def alpha_2025_09_def account_alpha_def)

lemma row_negative_reach_record:
  "MonthlyAccountData_fromCSVRow row_negative_reach 2025 9 = Inr alpha_negative_reach"
  by (simp add: row_defs row_negative_reach_def alpha_negative_reach_def)

lemma getKey_account_alpha: "getKey account_alpha = ''account_1''"
  by (simp add: account_alpha_def getKey_def)

lemma alpha_fields:
  "account alpha_2025_08 = account_alpha" "account alpha_2025_09 = account_alpha"
  "year alpha_2025_08 = 2025" "month alpha_2025_08 = 8"
  "year alpha_2025_09 = 2025" "month alpha_2025_09 = 9"
  by (simp_all add: alpha_2025_08_def alpha_2025_09_def)

lemma dataset_alpha_first_add:
  "TimeseriesDataset_addMonthlyData TimeseriesDataset_new alpha_2025_08
   = Inr \<lparr>accountTimeseries =
            [(''account_1'',
              \<lparr>ts_account = account_alpha, monthlyData = [((2025, 8), alpha_2025_08)]\<rparr>)]\<rparr>"
  by (simp add: TimeseriesDataset_addMonthlyData_def TimeseriesDataset_new_def
      AccountTimeseries_new_def AccountTimeseries_addMonthlyData_def alpha_fields
      getKey_account_alpha)

lemma dataset_alpha_second_add:
  "TimeseriesDataset_addMonthlyData
     \<lparr>accountTimeseries =
        [(''account_1'',
          \<lparr>ts_account = account_alpha, monthlyData = [((2025, 8), alpha_2025_08)]\<rparr>)]\<rparr>
     alpha_2025_09
   = Inr dataset_alpha"
  by (simp add: TimeseriesDataset_addMonthlyData_def AccountTimeseries_addMonthlyData_def
      alpha_fields getKey_account_alpha dataset_alpha_def series_alpha_def)

lemma dataset_alpha_ingested: "addRows TimeseriesDataset_new rows_alpha = Inr dataset_alpha"
  by (simp add: rows_alpha_def addRow_def row_alpha_08_record row_alpha_09_record
      dataset_alpha_first_add dataset_alpha_second_add)

lemma series_alpha_stored: "getAccountTimeseries dataset_alpha ''1'' = Some series_alpha"
  by (simp add: getAccountTimeseries_def dataset_alpha_def)

lemma dataset_negative_reach_ingested:
  "addRows TimeseriesDataset_new [(row_negative_reach, 2025, 9)] = Inr dataset_negative_reach"
  by (simp add: addRow_def row_negative_reach_record TimeseriesDataset_addMonthlyData_def
      TimeseriesDataset_new_def AccountTimeseries_new_def AccountTimeseries_addMonthlyData_def
      alpha_negative_reach_def getKey_def dataset_negative_reach_def)

section \<open>Aggregation of non-summable metrics\<close>

text \<open>
  Claim C1 says that the per-metric object of reach never has a \<open>total\<close> field, also
  when no valid value exists. \<open>calculatePeriodSummary\<close> breaks it in that case: the only
  reach value of the period is negative, so no value is valid, and the object written
  for reach carries \<open>total: 0\<close>.
\<close>

theorem period_summary_reach_total_without_valid_value:
  "map_of (s_metrics (calculatePeriodSummary codeunit_compare dataset_negative_reach 2025 9))
     ''reach''
   = Some \<lparr>f_type = ''unique_persons'', f_total = Some (Fin 0), f_average = Some (Fin 0),
            f_min = Some (Fin 0), f_max = Some (Fin 0), f_validAccounts = Some 0,
            f_note = None\<rparr>"
  by code_simp


text \<open>
  Claim C3 says that with a period filter the per-metric values are computed over the
  records of the filter only. With the filter \<open>[2025-09]\<close> the \<open>periods\<close> part of the
  result is restricted to that month, but every metric is aggregated over both months
  of the series: views total 300, not 200.
\<close>

theorem period_filter_not_applied_to_metrics:
  "aggregateAccountData series_alpha (Some [\<lparr>year = 2025, month = 9\<rparr>])
   = Inr \<lparr>a_account = \<lparr>username = ''alpha'', accountId = ''1'', displayName = ''Alpha''\<rparr>,
          a_periods = \<lparr>p_total = 1, p_first = Some \<lparr>year = 2025, month = 9\<rparr>,
                       p_last = Some \<lparr>year = 2025, month = 9\<rparr>,
                       p_included = [\<lparr>year = 2025, month = 9\<rparr>]\<rparr>,
          a_metrics =
            [(''reach'',
              \<lparr>f_type = ''average'', f_total = None, f_average = Some (Fin 2000),
               f_min = Some (Fin 1000), f_max = Some (Fin 3000), f_validAccounts = None,
               f_note = Some NoteAverageNotSummableOverMonths\<rparr>),
             (''followers'',
              \<lparr>f_type = ''total'', f_total = Some (Fin 50), f_average = Some (Fin 25),
               f_min = None, f_max = None, f_validAccounts = None,
               f_note = Some NoteTotalSummableOverMonths\<rparr>),
             (''views'',
              \<lparr>f_type = ''total'', f_total = Some (Fin 300), f_average = Some (Fin 150),
               f_min = None, f_max = None, f_validAccounts = None,
               f_note = Some NoteTotalSummableOverMonths\<rparr>)]\<rparr>"
  by code_simp

section \<open>CSV content validation\<close>

text \<open>
  Claim C8 says that a file stays valid, with a warning, when the share of rows with
  row-level errors is strictly between 0 and 50 percent. \<open>validateCSVDataContent\<close>
  compares the number of error entries, not of rows, with half the row count: one row of
  three that lacks both the account handle and the id gives two entries, and the file
  is fatal.
\<close>

theorem one_blank_row_of_three_is_fatal:
  "validateCSVDataContent rows_one_blank
   = \<lparr>isValid = False, errors = [TooManyRowErrors 2 3], warnings = [FewValidRows 2 3]\<rparr>"
  by code_simp

section \<open>Percentage changes\<close>

lemma trend_loop_convention: "list_all trend_convention (trend_loop metric ds)"
  by (induction metric ds rule: trend_loop.induct)
     (simp_all add: trend_of_def trend_convention_def calculatePercentageChange_def
        relative_change_def Let_def)

lemma trend_loop_short: "length ds < 2 \<Longrightarrow> trend_loop metric ds = []"
  by (cases "(metric, ds)" rule: trend_loop.cases) auto

lemma trend_loop_previous:
  "map t_previousValue (trend_loop metric ds) = map (\<lambda>d. metric_get (metrics d) metric) (butlast ds)"
  by (induction metric ds rule: trend_loop.induct) (simp_all add: trend_of_def Let_def)

lemma trend_loop_current:
  "map t_currentValue (trend_loop metric ds) = map (\<lambda>d. metric_get (metrics d) metric) (tl ds)"
  by (induction metric ds rule: trend_loop.induct) (simp_all add: trend_of_def Let_def)

lemma compare_values_convention: "comparison_convention (compare_values c p ty)"
  by (simp add: comparison_convention_def compare_values_def relative_change_def)

lemma compare_metric_convention:
  "compare_metric current previous metric = Inr mc \<Longrightarrow>
   comparison_convention mc \<and> c_current mc = summary_value current metric
   \<and> c_previous mc = summary_value previous metric"
  by (auto simp: compare_metric_def summary_value_def comparison_convention_def
      compare_values_def relative_change_def split: option.splits if_splits)

lemma compare_metrics_convention:
  "compare_metrics current previous ms = Inr r \<Longrightarrow> list_all (comparison_ok current previous) r"
proof (induction ms arbitrary: r)
  case Nil
  then show ?case by simp
next
  case (Cons metric rest)
  then show ?case
    by (auto simp: comparison_ok_def dest: compare_metric_convention split: sum.splits)
qed

lemma period_of_summary: "s_period (calculatePeriodSummary lc ds y m) = \<lparr>year = y, month = m\<rparr>"
  by (simp add: calculatePeriodSummary_def Let_def)

lemma compare_loop_convention:
  "compare_loop (map (\<lambda>p. calculatePeriodSummary lc ds (year p) (month p)) ps) = Inr comps \<Longrightarrow>
   list_all (comparison_entry_ok lc ds) comps
   \<and> map previousPeriod comps = butlast ps \<and> map currentPeriod comps = tl ps"
proof (induction ps arbitrary: comps rule: induct_list012)
  case 1
  then show ?case by auto
next
  case (2 p)
  then show ?case by auto
next
  case (3 p q rest)
  let ?S = "\<lambda>p. calculatePeriodSummary lc ds (year p) (month p)"
  from "3.prems" obtain ms r where
    ms: "compare_metrics (?S q) (?S p) allMetrics = Inr ms" and
    r: "compare_loop (map ?S (q # rest)) = Inr r" and
    comps: "comps = \<lparr>currentPeriod = s_period (?S q), previousPeriod = s_period (?S p),
                      accountCountChange = int (totalAccounts (?S q)) - int (totalAccounts (?S p)),
                      c_metrics = ms\<rparr> # r"
    by (auto split: sum.splits)
  have "list_all (comparison_ok (?S q) (?S p)) ms"
    using compare_metrics_convention [OF ms] .
  then have "comparison_entry_ok lc ds (hd comps)"
    by (simp add: comps comparison_entry_ok_def period_of_summary)
  moreover have "list_all (comparison_entry_ok lc ds) r \<and> map previousPeriod r = butlast (q # rest)
                 \<and> map currentPeriod r = tl (q # rest)"
    using "3.IH"(2) [OF r] .
  ultimately show ?case
    by (simp add: comps period_of_summary)
qed

text \<open>
  Claim C4, as the code has it. Every entry of \<open>calculateMonthToMonthTrend\<close> compares the
  metric values of two adjacent records of the chronological series and follows the
  convention of the claim: 100 or 0 from a previous value 0 (or an absent one), the
  standard relative change otherwise. Every entry of \<open>comparePeriods\<close> compares, per
  metric, the averages (reach) or totals (followers, views) of the summaries of two
  adjacent periods of the list; its percentage change is the standard relative change
  when the previous value is greater than 0, and \<open>null\<close> when it is 0.
\<close>

theorem percentage_change_conventions:
  "(calculateMonthToMonthTrend ts metric = Inr trend \<longrightarrow>
      list_all trend_convention trend
      \<and> map t_previousValue trend
          = map (\<lambda>d. metric_get (metrics d) metric) (butlast (getAllMonthlyData ts))
      \<and> map t_currentValue trend
          = map (\<lambda>d. metric_get (metrics d) metric) (tl (getAllMonthlyData ts)))
   \<and> (comparePeriods lc ds periods = Inr comps \<longrightarrow>
      list_all (comparison_entry_ok lc ds) comps
      \<and> map previousPeriod comps = butlast periods
      \<and> map currentPeriod comps = tl periods)"
proof (intro conjI impI)
  assume t: "calculateMonthToMonthTrend ts metric = Inr trend"
  then have trend: "trend = trend_loop metric (getAllMonthlyData ts)"
    by (auto simp: calculateMonthToMonthTrend_def Let_def trend_loop_short split: if_splits)
  show "list_all trend_convention trend"
    by (simp add: trend trend_loop_convention)
  show "map t_previousValue trend
          = map (\<lambda>d. metric_get (metrics d) metric) (butlast (getAllMonthlyData ts))"
    by (simp add: trend trend_loop_previous)
  show "map t_currentValue trend
          = map (\<lambda>d. metric_get (metrics d) metric) (tl (getAllMonthlyData ts))"
    by (simp add: trend trend_loop_current)
next
  assume "comparePeriods lc ds periods = Inr comps"
  then have c: "compare_loop (map (\<lambda>p. calculatePeriodSummary lc ds (year p) (month p)) periods)
                  = Inr comps"
    by (simp add: comparePeriods_def split: if_splits)
  show "list_all (comparison_entry_ok lc ds) comps"
    using compare_loop_convention [OF c] by simp
  show "map previousPeriod comps = butlast periods"
    using compare_loop_convention [OF c] by simp
  show "map currentPeriod comps = tl periods"
    using compare_loop_convention [OF c] by simp
qed

lemma trend_alpha_followers_computed:
  "calculateMonthToMonthTrend series_alpha ''followers'' = Inr trend_alpha_followers"
  by code_simp

lemma comparisons_alpha_computed:
  "comparePeriods codeunit_compare dataset_alpha
     [\<lparr>year = 2025, month = 8\<rparr>, \<lparr>year = 2025, month = 9\<rparr>] = Inr comparisons_alpha"
  by code_simp

theorem percentage_change_conventions_witness:
  "calculateMonthToMonthTrend series_alpha ''followers'' = Inr trend_alpha_followers
   \<and> list_all trend_convention trend_alpha_followers
   \<and> comparePeriods codeunit_compare dataset_alpha
        [\<lparr>year = 2025, month = 8\<rparr>, \<lparr>year = 2025, month = 9\<rparr>] = Inr comparisons_alpha
   \<and> list_all (comparison_entry_ok codeunit_compare dataset_alpha) comparisons_alpha"
proof -
  note c = percentage_change_conventions [of series_alpha "''followers''" trend_alpha_followers
      codeunit_compare dataset_alpha "[\<lparr>year = 2025, month = 8\<rparr>, \<lparr>year = 2025, month = 9\<rparr>]"
      comparisons_alpha]
  have t: "list_all trend_convention trend_alpha_followers"
    using conjunct1 [OF c] trend_alpha_followers_computed by (rule mp [THEN conjunct1])
  have p: "list_all (comparison_entry_ok codeunit_compare dataset_alpha) comparisons_alpha"
    using conjunct2 [OF c] comparisons_alpha_computed by (rule mp [THEN conjunct1])
  show ?thesis
    by (rule conjI [OF trend_alpha_followers_computed
          conjI [OF t conjI [OF comparisons_alpha_computed p]]])
qed

text \<open>
  The claim as stated fails for \<open>comparePeriods\<close>: the followers total goes from 0 to 50
  and the reported percentage change is \<open>null\<close>, not 100.
\<close>

theorem compare_periods_from_zero_counterexample:
  "comparePeriods codeunit_compare dataset_alpha
     [\<lparr>year = 2025, month = 8\<rparr>, \<lparr>year = 2025, month = 9\<rparr>]
   = Inr [\<lparr>currentPeriod = \<lparr>year = 2025, month = 9\<rparr>,
           previousPeriod = \<lparr>year = 2025, month = 8\<rparr>,
           accountCountChange = 0,
           c_metrics =
             [(''reach'',
               \<lparr>c_current = Some (Fin 3000), c_previous = Some (Fin 1000),
                c_absoluteChange = Fin 2000, c_percentageChange = Some (Fin 200),
                c_type = ''average_comparison''\<rparr>),
              (''followers'',
               \<lparr>c_current = Some (Fin 50), c_previous = Some (Fin 0),
                c_absoluteChange = Fin 50, c_percentageChange = None,
                c_type = ''total_comparison''\<rparr>),
              (''views'',
               \<lparr>c_current = Some (Fin 200), c_previous = Some (Fin 100),
                c_absoluteChange = Fin 100, c_percentageChange = Some (Fin 100),
                c_type = ''total_comparison''\<rparr>)]\<rparr>]"
  using comparisons_alpha_computed by (simp add: comparisons_alpha_def)

section \<open>Averages\<close>



















section \<open>The stable sort\<close>

text \<open>On a set where the comparator is a strict weak order, the sort returns a sorted
  permutation.\<close>

lemma mset_insort_by: "mset (insort_by gt x xs) = add_mset x (mset xs)"
  by (induction xs) auto

lemma mset_sort_by: "mset (sort_by gt xs) = mset xs"
  by (induction xs) (auto simp: sort_by_def mset_insort_by)

lemma set_sort_by: "set (sort_by gt xs) = set xs"
  using mset_sort_by [of gt xs] by (metis set_mset_mset)

lemma set_insort_by: "set (insort_by gt x xs) = insert x (set xs)"
  using mset_insort_by [of gt x xs] by (metis set_mset_mset set_mset_add_mset_insert)

lemma sorted_insort_by:
  assumes asym: "\<And>a b. a \<in> A \<Longrightarrow> b \<in> A \<Longrightarrow> gt a b \<Longrightarrow> \<not> gt b a"
    and ntrans: "\<And>a b c. a \<in> A \<Longrightarrow> b \<in> A \<Longrightarrow> c \<in> A \<Longrightarrow> \<not> gt a b \<Longrightarrow> \<not> gt b c \<Longrightarrow> \<not> gt a c"
    and "x \<in> A" and "set xs \<subseteq> A"
    and "sorted_wrt (\<lambda>a b. \<not> gt a b) xs"
  shows "sorted_wrt (\<lambda>a b. \<not> gt a b) (insort_by gt x xs)"
  using assms(3-5)
proof (induction xs)
  case Nil
  then show ?case by simp
next
  case (Cons y ys)
  show ?case
  proof (cases "gt x y")
    case True
    have "\<not> gt y x" using asym [OF _ _ True] Cons.prems by simp
    moreover have "sorted_wrt (\<lambda>a b. \<not> gt a b) (insort_by gt x ys)"
      using Cons by simp
    ultimately show ?thesis using True Cons.prems by (auto simp: set_insort_by)
  next
    case False
    have "\<not> gt x z" if "z \<in> set ys" for z
      using ntrans [OF _ _ _ False, of z] Cons.prems that by auto
    then show ?thesis using False Cons.prems by auto
  qed
qed

lemma sorted_sort_by:
  assumes asym: "\<And>a b. a \<in> A \<Longrightarrow> b \<in> A \<Longrightarrow> gt a b \<Longrightarrow> \<not> gt b a"
    and ntrans: "\<And>a b c. a \<in> A \<Longrightarrow> b \<in> A \<Longrightarrow> c \<in> A \<Longrightarrow> \<not> gt a b \<Longrightarrow> \<not> gt b c \<Longrightarrow> \<not> gt a c"
    and "set xs \<subseteq> A"
  shows "sorted_wrt (\<lambda>a b. \<not> gt a b) (sort_by gt xs)"
  using assms(3)
proof (induction xs)
  case Nil
  then show ?case by (simp add: sort_by_def)
next
  case (Cons x xs)
  have "sorted_wrt (\<lambda>a b. \<not> gt a b) (insort_by gt x (sort_by gt xs))"
  proof (rule sorted_insort_by [where A = A])
    show "\<And>a b. a \<in> A \<Longrightarrow> b \<in> A \<Longrightarrow> gt a b \<Longrightarrow> \<not> gt b a" by (rule asym)
    show "\<And>a b c. a \<in> A \<Longrightarrow> b \<in> A \<Longrightarrow> c \<in> A \<Longrightarrow> \<not> gt a b \<Longrightarrow> \<not> gt b c \<Longrightarrow> \<not> gt a c"
      by (rule ntrans)
    show "x \<in> A" using Cons.prems by simp
    show "set (sort_by gt xs) \<subseteq> A" using Cons.prems by (simp add: set_sort_by)
    show "sorted_wrt (\<lambda>a b. \<not> gt a b) (sort_by gt xs)" using Cons by simp
  qed
  then show ?case by (simp add: sort_by_def)
qed

section \<open>Market share\<close>






lemma valid_value_Some: "valid_value x \<Longrightarrow> valid_value (Some (the x))"
  by (cases x) (simp_all add: valid_value_def)

lemma valid_values_valid: "list_all (\<lambda>v. valid_value (Some v)) (valid_values ds metric)"
  by (induction ds) (auto simp: valid_values_def intro: valid_value_Some)














text \<open>The dataset of both accounts is what adding the two records of the second account
  to the first dataset builds.\<close>

lemma getKey_account_beta: "getKey account_beta = ''account_2''"
  by (simp add: account_beta_def getKey_def)

lemma beta_fields:
  "account beta_2025_08 = account_beta" "account beta_2025_09 = account_beta"
  "year beta_2025_08 = 2025" "month beta_2025_08 = 8"
  "year beta_2025_09 = 2025" "month beta_2025_09 = 9"
  by (simp_all add: beta_2025_08_def beta_2025_09_def)

lemma dataset_pair_first_add:
  "TimeseriesDataset_addMonthlyData dataset_alpha beta_2025_08
   = Inr \<lparr>accountTimeseries =
            [(''account_1'', series_alpha),
             (''account_2'',
              \<lparr>ts_account = account_beta, monthlyData = [((2025, 8), beta_2025_08)]\<rparr>)]\<rparr>"
  by (simp add: TimeseriesDataset_addMonthlyData_def dataset_alpha_def
      AccountTimeseries_new_def AccountTimeseries_addMonthlyData_def beta_fields
      getKey_account_beta)

lemma dataset_pair_second_add:
  "TimeseriesDataset_addMonthlyData
     \<lparr>accountTimeseries =
        [(''account_1'', series_alpha),
         (''account_2'',
          \<lparr>ts_account = account_beta, monthlyData = [((2025, 8), beta_2025_08)]\<rparr>)]\<rparr>
     beta_2025_09
   = Inr dataset_pair"
  by (simp add: TimeseriesDataset_addMonthlyData_def AccountTimeseries_addMonthlyData_def
      beta_fields getKey_account_beta dataset_pair_def series_beta_def)

section \<open>Missing periods\<close>

text \<open>
  The loop of \<open>findMissingPeriods\<close> walks the months from the first to the last period
  of the sorted input and reports those that are absent, in order.
\<close>

lemma next_month_valid: "valid_month p \<Longrightarrow> valid_month (next_month p)"
  by (auto simp: valid_month_def next_month_def)

lemma next_month_index: "valid_month p \<Longrightarrow> month_index (next_month p) = month_index p + 1"
  by (auto simp: valid_month_def next_month_def month_index_def)

lemma month_index_inj:
  "valid_month p \<Longrightarrow> valid_month q \<Longrightarrow> month_index p = month_index q \<Longrightarrow> p = q"
proof -
  assume a: "valid_month p" "valid_month q" "month_index p = month_index q"
  have "fst p = fst q" using a unfolding valid_month_def month_index_def by presburger
  moreover have "snd p = snd q" using a unfolding valid_month_def month_index_def by presburger
  ultimately show "p = q" by (rule prod_eqI)
qed

lemma month_index_le:
  "valid_month p \<Longrightarrow> valid_month l \<Longrightarrow>
   (fst p < fst l \<or> (fst p = fst l \<and> snd p \<le> snd l)) = (month_index p \<le> month_index l)"
  by (auto simp: valid_month_def month_index_def)

lemma length_month_range: "length (month_range p n) = n"
  by (induction n arbitrary: p) auto

lemma month_range_nth:
  "valid_month p \<Longrightarrow> k < n \<Longrightarrow>
   valid_month (month_range p n ! k) \<and> month_index (month_range p n ! k) = month_index p + int k"
proof (induction n arbitrary: p k)
  case 0
  then show ?case by simp
next
  case (Suc n)
  show ?case
  proof (cases k)
    case 0
    then show ?thesis using Suc.prems by simp
  next
    case (Suc j)
    then have "j < n" using Suc.prems by simp
    from Suc.IH [OF next_month_valid [OF Suc.prems(1)] this]
    show ?thesis using Suc next_month_index [OF Suc.prems(1)] by simp
  qed
qed

lemma month_range_set:
  "valid_month p \<Longrightarrow> q \<in> set (month_range p n) \<Longrightarrow>
   valid_month q \<and> month_index p \<le> month_index q \<and> month_index q < month_index p + int n"
  using month_range_nth [of p _ n] by (fastforce simp: in_set_conv_nth length_month_range)

lemma month_range_distinct: "valid_month p \<Longrightarrow> distinct (month_range p n)"
proof (induction n arbitrary: p)
  case 0
  then show ?case by simp
next
  case (Suc n)
  have "p \<notin> set (month_range (next_month p) n)"
    using month_range_set [OF next_month_valid [OF Suc.prems], of p n]
      next_month_index [OF Suc.prems] by auto
  then show ?case using Suc.IH [OF next_month_valid [OF Suc.prems]] by simp
qed

lemma createStandardFilename_valid:
  "valid_month p \<Longrightarrow> isValidYear cy (fst p) \<Longrightarrow>
   createStandardFilename cy (fst p) (snd p) = Inr (standard_filename (fst p) (snd p))"
  by (simp add: createStandardFilename_def isValidPeriod_def isValidMonth_def valid_month_def
      standard_filename_def)

lemma missing_loop_stop:
  "\<not> (fst p < fst l \<or> (fst p = fst l \<and> snd p \<le> snd l)) \<Longrightarrow>
   missing_loop cy ex (fst l) (snd l) (fst p) (snd p) acc = Inr acc"
  by (subst missing_loop.simps) (simp only: if_False)

lemma missing_loop_step:
  assumes "fst p < fst l \<or> (fst p = fst l \<and> snd p \<le> snd l)"
  shows "missing_loop cy ex (fst l) (snd l) (fst p) (snd p) acc
         = (case (if p \<notin> set ex
                  then (case createStandardFilename cy (fst p) (snd p) of
                          Inl e \<Rightarrow> Inl e
                        | Inr f \<Rightarrow> Inr (acc @ [\<lparr>year = fst p, month = snd p, filename = f\<rparr>]))
                  else Inr acc) of
              Inl e \<Rightarrow> Inl e
            | Inr acc' \<Rightarrow>
                missing_loop cy ex (fst l) (snd l) (fst (next_month p)) (snd (next_month p)) acc')"
proof -
  have nxt: "(if snd p + 1 > 12 then fst p + 1 else fst p) = fst (next_month p)"
    "(if snd p + 1 > 12 then 1 else snd p + 1) = snd (next_month p)"
    by (simp_all add: next_month_def)
  show ?thesis
    by (subst missing_loop.simps) (simp only: assms if_True nxt prod.collapse)
qed

lemma missing_loop_past:
  assumes "valid_month p" and "valid_month l" and "month_index l < month_index p"
  shows "missing_loop cy ex (fst l) (snd l) (fst p) (snd p) acc = Inr acc"
proof (rule missing_loop_stop)
  show "\<not> (fst p < fst l \<or> (fst p = fst l \<and> snd p \<le> snd l))"
    using month_index_le [OF assms(1,2)] assms(3) by simp
qed

lemma missing_loop_range:
  assumes "valid_month p" and "valid_month l" and "month_index l = month_index p + int k"
    and "\<And>q. q \<in> set (month_range p (Suc k)) \<Longrightarrow> q \<notin> set ex \<Longrightarrow> isValidYear cy (fst q)"
  shows "missing_loop cy ex (fst l) (snd l) (fst p) (snd p) acc
         = Inr (acc @ map missing_entry (filter (\<lambda>q. q \<notin> set ex) (month_range p (Suc k))))"
  using assms
proof (induction k arbitrary: p acc)
  case 0
  have cond: "fst p < fst l \<or> (fst p = fst l \<and> snd p \<le> snd l)"
    using month_index_le [OF "0.prems"(1,2)] "0.prems"(3) by simp
  have past: "missing_loop cy ex (fst l) (snd l) (fst (next_month p)) (snd (next_month p)) a = Inr a"
    for a
    using missing_loop_past [OF next_month_valid [OF "0.prems"(1)] "0.prems"(2)]
      next_month_index [OF "0.prems"(1)] "0.prems"(3) by simp
  show ?case
  proof (cases "p \<in> set ex")
    case True
    then show ?thesis
      by (simp add: missing_loop_step [OF cond] past)
  next
    case False
    then have "isValidYear cy (fst p)" using "0.prems"(4) by simp
    then show ?thesis
      using False createStandardFilename_valid [OF "0.prems"(1)]
      by (simp add: missing_loop_step [OF cond] past missing_entry_def)
  qed
next
  case (Suc k)
  have cond: "fst p < fst l \<or> (fst p = fst l \<and> snd p \<le> snd l)"
    using month_index_le [OF Suc.prems(1,2)] Suc.prems(3) by simp
  have v': "valid_month (next_month p)" by (rule next_month_valid [OF Suc.prems(1)])
  have i': "month_index l = month_index (next_month p) + int k"
    using next_month_index [OF Suc.prems(1)] Suc.prems(3) by simp
  have rest: "missing_loop cy ex (fst l) (snd l) (fst (next_month p)) (snd (next_month p)) a
              = Inr (a @ map missing_entry
                          (filter (\<lambda>q. q \<notin> set ex) (month_range (next_month p) (Suc k))))" for a
    using Suc.IH [OF v' Suc.prems(2) i'] Suc.prems(4) by simp
  show ?case
  proof (cases "p \<in> set ex")
    case True
    then show ?thesis
      by (simp add: missing_loop_step [OF cond] rest)
  next
    case False
    then have "isValidYear cy (fst p)" using Suc.prems(4) by simp
    then show ?thesis
      using False createStandardFilename_valid [OF Suc.prems(1)]
      by (simp add: missing_loop_step [OF cond] rest missing_entry_def)
  qed
qed

lemma period_gt_iff:
  "(0 < period_cmp a b) = (year b < year a \<or> (year a = year b \<and> month b < month a))"
  by (auto simp: period_cmp_def)

lemma sorted_periods:
  "sorted_wrt (\<lambda>a b. \<not> 0 < period_cmp a b) (sort_by (\<lambda>a b. 0 < period_cmp a b) ps)"
proof (rule sorted_sort_by [where A = UNIV])
  show "\<And>a b :: 'a period_scheme. a \<in> UNIV \<Longrightarrow> b \<in> UNIV \<Longrightarrow> 0 < period_cmp a b \<Longrightarrow> \<not> 0 < period_cmp b a"
    by (auto simp: period_gt_iff)
  show "\<And>a b c :: 'a period_scheme. a \<in> UNIV \<Longrightarrow> b \<in> UNIV \<Longrightarrow> c \<in> UNIV \<Longrightarrow>
          \<not> 0 < period_cmp a b \<Longrightarrow> \<not> 0 < period_cmp b c \<Longrightarrow> \<not> 0 < period_cmp a c"
    by (auto simp: period_gt_iff)
  show "set ps \<subseteq> UNIV" by simp
qed

lemma sorted_wrt_hd:
  "sorted_wrt P xs \<Longrightarrow> (\<And>x. P x x) \<Longrightarrow> x \<in> set xs \<Longrightarrow> P (hd xs) x"
  by (cases xs) auto

lemma sorted_wrt_last:
  "sorted_wrt P xs \<Longrightarrow> (\<And>x. P x x) \<Longrightarrow> x \<in> set xs \<Longrightarrow> P x (last xs)"
proof (induction xs)
  case Nil
  then show ?case by simp
next
  case (Cons a xs)
  show ?case
  proof (cases "xs = []")
    case True
    then show ?thesis using Cons.prems by simp
  next
    case False
    then have "last xs \<in> set xs" by simp
    then show ?thesis using Cons False by auto
  qed
qed

lemma filter_only:
  "distinct xs \<Longrightarrow> x \<in> set xs \<Longrightarrow> filter (\<lambda>q. q = x) xs = [x]"
proof (induction xs)
  case Nil
  then show ?case by simp
next
  case (Cons a xs)
  show ?case
  proof (cases "a = x")
    case True
    then have "x \<notin> set xs" using Cons.prems by simp
    then have "filter (\<lambda>q. q = x) xs = []" by (auto simp: filter_empty_conv)
    then show ?thesis using True by simp
  next
    case False
    then show ?thesis using Cons by auto
  qed
qed

lemma period_le_index:
  assumes "valid_month (period_key a)" and "valid_month (period_key b)"
  shows "(\<not> 0 < period_cmp a b) = (month_index (period_key a) \<le> month_index (period_key b))"
  using assms unfolding period_gt_iff period_key_def valid_month_def month_index_def fst_conv snd_conv
  by presburger

lemma findMissingPeriods_range:
  assumes p0: "valid_month p0" and n: "0 < n"
    and sub: "period_key ` set periods \<subseteq> set (month_range p0 n)"
    and first: "p0 \<in> period_key ` set periods"
    and lastp: "month_range p0 n ! (n - 1) \<in> period_key ` set periods"
    and ok: "\<And>q. q \<in> set (month_range p0 n) \<Longrightarrow> q \<notin> period_key ` set periods \<Longrightarrow> isValidYear cy (fst q)"
  shows "findMissingPeriods cy periods
         = Inr (map missing_entry (filter (\<lambda>q. q \<notin> period_key ` set periods) (month_range p0 n)))"
proof -
  let ?gt = "\<lambda>a b :: period. 0 < period_cmp a b"
  let ?s = "sort_by ?gt periods"
  let ?l = "month_range p0 n ! (n - 1)"
  have ne: "periods \<noteq> []" using first by auto
  have sne: "?s \<noteq> []" using ne set_sort_by [of ?gt periods] by (metis set_empty)
  have srt: "sorted_wrt (\<lambda>a b. \<not> ?gt a b) ?s" by (rule sorted_periods)
  have refl: "\<And>x :: period. \<not> ?gt x x" by (simp add: period_gt_iff)
  have valid: "valid_month (period_key a) \<and> month_index p0 \<le> month_index (period_key a)
               \<and> month_index (period_key a) < month_index p0 + int n" if "a \<in> set periods" for a
    using month_range_set [OF p0, of "period_key a" n] sub that by auto
  have l: "valid_month ?l \<and> month_index ?l = month_index p0 + int (n - 1)"
    using month_range_nth [OF p0, of "n - 1" n] n by simp
  have hd_in: "hd ?s \<in> set periods" using sne set_sort_by [of ?gt periods] hd_in_set by blast
  have last_in: "last ?s \<in> set periods" using sne set_sort_by [of ?gt periods] last_in_set by blast
  obtain a where a: "a \<in> set periods" "period_key a = p0" using first by auto
  obtain b where b: "b \<in> set periods" "period_key b = ?l" using lastp by auto
  have "\<not> ?gt (hd ?s) a"
    using sorted_wrt_hd [OF srt refl] a(1) set_sort_by [of ?gt periods] by simp
  then have "month_index (period_key (hd ?s)) \<le> month_index p0"
    using period_le_index [of "hd ?s" a] valid [OF hd_in] valid [OF a(1)] a(2) by simp
  then have "month_index (period_key (hd ?s)) = month_index p0"
    using valid [OF hd_in] by simp
  then have hd_key: "period_key (hd ?s) = p0"
    using month_index_inj [OF _ p0] valid [OF hd_in] by simp
  have "\<not> ?gt b (last ?s)"
    using sorted_wrt_last [OF srt refl] b(1) set_sort_by [of ?gt periods] by simp
  then have "month_index ?l \<le> month_index (period_key (last ?s))"
    using period_le_index [of b "last ?s"] valid [OF last_in] valid [OF b(1)] b(2) by simp
  then have "month_index (period_key (last ?s)) = month_index ?l"
    using valid [OF last_in] l n by simp
  then have last_key: "period_key (last ?s) = ?l"
    using month_index_inj [OF _ conjunct1 [OF l]] valid [OF last_in] by simp
  have hd_ym: "year (hd ?s) = fst p0" "month (hd ?s) = snd p0"
    using arg_cong [OF hd_key, of fst] arg_cong [OF hd_key, of snd]
    by (simp_all add: period_key_def)
  have last_ym: "year (last ?s) = fst ?l" "month (last ?s) = snd ?l"
    using arg_cong [OF last_key, of fst] arg_cong [OF last_key, of snd]
    by (simp_all add: period_key_def)
  have keys: "map (\<lambda>p. (year p, month p)) periods = map period_key periods"
    by (simp add: period_key_def)
  have idx: "month_index ?l = month_index p0 + int (n - 1)" using l by simp
  have loop: "missing_loop cy (map period_key periods) (fst ?l) (snd ?l) (fst p0) (snd p0) []
        = Inr ([] @ map missing_entry
                 (filter (\<lambda>q. q \<notin> set (map period_key periods)) (month_range p0 (Suc (n - 1)))))"
  proof (rule missing_loop_range [OF p0 conjunct1 [OF l] idx])
    fix q
    assume "q \<in> set (month_range p0 (Suc (n - 1)))" and "q \<notin> set (map period_key periods)"
    then show "isValidYear cy (fst q)" using ok [of q] n by simp
  qed
  have "findMissingPeriods cy periods
        = missing_loop cy (map period_key periods) (fst ?l) (snd ?l) (fst p0) (snd p0) []"
    unfolding findMissingPeriods_def Let_def keys hd_ym last_ym using ne by simp
  then show ?thesis using loop n by simp
qed

lemma findMissingPeriods_empty: "findMissingPeriods currentYear [] = Inr []"
  by (simp add: findMissingPeriods_def)

text \<open>
  Claim C9, as the code has it. The empty list gives the empty list, not an error. When
  the periods of the input (in any order, repeated or not) are those of \<open>n\<close> consecutive
  months without the month at position \<open>i\<close>, where that month is neither the first nor
  the last of the range and its year is one that \<open>createStandardFilename\<close> accepts,
  \<open>findMissingPeriods\<close> returns exactly that month, with its standard file name.
\<close>

theorem findMissingPeriods_interior_gap:
  assumes "isValidMonth m0" and "0 < i" and "i + 1 < n"
    and "period_key ` set periods
         = set (month_range (y0, m0) n) - {month_range (y0, m0) n ! i}"
    and "isValidYear currentYear (fst (month_range (y0, m0) n ! i))"
  shows "findMissingPeriods currentYear [] = Inr [] \<and>
         findMissingPeriods currentYear periods
         = Inr [missing_entry (month_range (y0, m0) n ! i)]"
proof -
  let ?R = "month_range (y0, m0) n"
  let ?K = "period_key ` set periods"
  have p0: "valid_month (y0, m0)" using assms(1) by (simp add: valid_month_def isValidMonth_def)
  have d: "distinct ?R" by (rule month_range_distinct [OF p0])
  have len: "length ?R = n" by (rule length_month_range)
  have n: "0 < n" using assms(3) by simp
  have r_in: "?R ! i \<in> set ?R" using assms(3) len by simp
  have zero: "?R ! 0 = (y0, m0)" using n by (cases n) simp_all
  have "?R ! 0 \<noteq> ?R ! i"
    using d assms(2,3) len by (simp add: nth_eq_iff_index_eq)
  then have first: "(y0, m0) \<in> ?K" using assms(4) zero n len by (metis DiffI nth_mem singletonD)
  have "?R ! (n - 1) \<noteq> ?R ! i"
    using d assms(2,3) len by (simp add: nth_eq_iff_index_eq)
  then have lastp: "?R ! (n - 1) \<in> ?K"
    using assms(4) n len by (metis DiffI diff_less nth_mem singletonD zero_less_one)
  have sub: "?K \<subseteq> set ?R" using assms(4) by auto
  have ok: "isValidYear currentYear (fst q)" if "q \<in> set ?R" and "q \<notin> ?K" for q
    using that assms(4,5) by auto
  have "filter (\<lambda>q. q \<notin> ?K) ?R = filter (\<lambda>q. q = ?R ! i) ?R"
    by (rule filter_cong) (auto simp: assms(4))
  also have "\<dots> = [?R ! i]" by (rule filter_only [OF d r_in])
  finally have f: "filter (\<lambda>q. q \<notin> ?K) ?R = [?R ! i]" .
  have "findMissingPeriods currentYear periods = Inr (map missing_entry (filter (\<lambda>q. q \<notin> ?K) ?R))"
    by (rule findMissingPeriods_range [OF p0 n sub first lastp ok])
  then show ?thesis using f by (simp add: findMissingPeriods_empty)
qed

text \<open>The months 2025-11 to 2026-02 without 2026-01, unordered and with a repetition.\<close>

lemma filename_2026_01: "standard_filename 2026 1 = ''IG_2026_01.csv''"
  by code_simp

lemma range_2025_11: "month_range (2025, 11) 4 = [(2025, 11), (2025, 12), (2026, 1), (2026, 2)]"
  by (simp add: eval_nat_numeral next_month_def)

theorem findMissingPeriods_interior_gap_witness:
  "findMissingPeriods 2026
     [\<lparr>year = 2026, month = 2\<rparr>, \<lparr>year = 2025, month = 11\<rparr>,
      \<lparr>year = 2025, month = 12\<rparr>, \<lparr>year = 2025, month = 11\<rparr>]
   = Inr [\<lparr>year = 2026, month = 1, filename = ''IG_2026_01.csv''\<rparr>]"
  using findMissingPeriods_interior_gap [of 11 2 4
      "[\<lparr>year = 2026, month = 2\<rparr>, \<lparr>year = 2025, month = 11\<rparr>,
        \<lparr>year = 2025, month = 12\<rparr>, \<lparr>year = 2025, month = 11\<rparr>]" 2025 2026]
  by (simp add: range_2025_11 isValidMonth_def isValidYear_def period_key_def missing_entry_def
      filename_2026_01 insert_commute)

text \<open>
  The claim as stated fails when the removed period is the last of the range: of the
  months 2025-01 to 2025-03 without 2025-03 the loop stops at 2025-02 and nothing is
  reported.
\<close>

lemma range_2025_01: "month_range (2025, 1) 3 = [(2025, 1), (2025, 2), (2025, 3)]"
  by (simp add: eval_nat_numeral next_month_def)

theorem last_period_removed_counterexample:
  "period_key ` set [\<lparr>year = 2025, month = 1\<rparr>, \<lparr>year = 2025, month = 2\<rparr>]
     = set (month_range (2025, 1) 3) - {month_range (2025, 1) 3 ! 2}
   \<and> findMissingPeriods 2026 [\<lparr>year = 2025, month = 1\<rparr>, \<lparr>year = 2025, month = 2\<rparr>] = Inr []"
proof (rule conjI)
  show "period_key ` set [\<lparr>year = 2025, month = 1\<rparr>, \<lparr>year = 2025, month = 2\<rparr>]
        = set (month_range (2025, 1) 3) - {month_range (2025, 1) 3 ! 2}"
    by (auto simp: range_2025_01 period_key_def)
  show "findMissingPeriods 2026 [\<lparr>year = 2025, month = 1\<rparr>, \<lparr>year = 2025, month = 2\<rparr>]
        = Inr []"
    by (simp add: findMissingPeriods_def sort_by_def period_cmp_def missing_loop.simps)
qed

text \<open>A missing month whose year is before 2010 makes \<open>createStandardFilename\<close> throw.\<close>

lemma findMissingPeriods_year_before_2010:
  "findMissingPeriods 2026 [\<lparr>year = 2009, month = 1\<rparr>, \<lparr>year = 2009, month = 3\<rparr>]
   = Inl (InvalidPeriod 2009 2)"
  by (simp add: findMissingPeriods_def sort_by_def period_cmp_def missing_loop.simps
      createStandardFilename_def isValidPeriod_def isValidYear_def)

end
